theory Spec2Isabelle
  imports Complex_Main "HOL-Library.Stream"
begin

section \<open>Values: waveforms, errors, Python helpers\<close>

text \<open>
  A waveform is channel-major, as the tensors of \<^verbatim>\<open>data.py\<close> are: a list of channels,
  each a list of samples. Samples and seconds are exact rationals; the rounding of
  floating-point arithmetic is not modelled.
\<close>

type_synonym sample = rat
type_synonym wave = "sample list list"
type_synonym path = string

datatype error =
  RuntimeError | RecursionError | TypeError | IndexError | KeyError | ValueError
  | ZeroDivisionError | AttributeError

text \<open>\<^verbatim>\<open>except RuntimeError\<close> also catches its subclass RecursionError.\<close>

definition is_RuntimeError :: "error \<Rightarrow> bool" where
  "is_RuntimeError e = (e = RuntimeError \<or> e = RecursionError)"

text \<open>\<^verbatim>\<open>audio.shape[1]\<close>: the number of samples per channel.\<close>

definition nb_timesteps :: "wave \<Rightarrow> nat" where
  "nb_timesteps audio = (case audio of [] \<Rightarrow> 0 | c # _ \<Rightarrow> length c)"

definition shape :: "wave \<Rightarrow> nat \<times> nat" where
  "shape audio = (length audio, nb_timesteps audio)"

text \<open>Python's \<^verbatim>\<open>int(x)\<close> on a float truncates towards zero.\<close>

definition py_int :: "rat \<Rightarrow> int" where
  "py_int x = (if 0 \<le> x then \<lfloor>x\<rfloor> else \<lceil>x\<rceil>)"

text \<open>Python's \<^verbatim>\<open>round(x)\<close>: to the nearest integer, ties to the even one.\<close>

definition py_round :: "rat \<Rightarrow> int" where
  "py_round x =
     (let f = \<lfloor>x\<rfloor>; r = x - of_int f
      in if r < 1 / 2 then f else if 1 / 2 < r then f + 1 else if even f then f else f + 1)"

text \<open>\<^verbatim>\<open>xs[i]\<close>: a negative index counts from the end, out of range raises.\<close>

definition py_getitem :: "'a list \<Rightarrow> int \<Rightarrow> error + 'a" where
  "py_getitem xs i =
     (if 0 \<le> i \<and> i < int (length xs) then Inr (xs ! nat i)
      else if i < 0 \<and> - int (length xs) \<le> i then Inr (xs ! nat (int (length xs) + i))
      else Inl IndexError)"

text \<open>\<^verbatim>\<open>index - 1 if index > 0 else index + 1\<close>, the index every retry moves to.\<close>

definition neighbour :: "int \<Rightarrow> int" where
  "neighbour index = (if index > 0 then index - 1 else index + 1)"

section \<open>The process-wide random generator\<close>

text \<open>
  The state of the generator is the stream of its future raw outputs. \<^verbatim>\<open>random.random()\<close>
  turns one output into a 53-bit fraction of \<open>[0, 1)\<close>; \<^verbatim>\<open>random.uniform(a, b)\<close> is
  \<^verbatim>\<open>a + (b - a) * random()\<close>; \<^verbatim>\<open>random.choice(seq)\<close> raises IndexError on an empty
  sequence and otherwise picks by one output.
\<close>

type_synonym rng = "nat stream"

definition random_random :: "rng \<Rightarrow> rat \<times> rng" where
  "random_random g = (of_nat (shd g mod 2 ^ 53) / 2 ^ 53, stl g)"

definition random_uniform :: "rat \<Rightarrow> rat \<Rightarrow> rng \<Rightarrow> rat \<times> rng" where
  "random_uniform a b g = (a + (b - a) * fst (random_random g), snd (random_random g))"

definition random_choice :: "'a list \<Rightarrow> rng \<Rightarrow> error + ('a \<times> rng)" where
  "random_choice seq g =
     (if seq = [] then Inl IndexError else Inr (seq ! (shd g mod length seq), stl g))"

section \<open>Augmentations\<close>

type_synonym augmentation = "wave \<Rightarrow> rng \<Rightarrow> wave \<times> rng"

fun Compose :: "augmentation list \<Rightarrow> augmentation" where
  "Compose [] audio g = (audio, g)"
| "Compose (t # transforms) audio g = (case t audio g of (audio', g') \<Rightarrow> Compose transforms audio' g')"

definition augment_source_gain :: augmentation where
  "augment_source_gain audio g =
     (case random_uniform (1 / 4) (5 / 4) g of (gain, g') \<Rightarrow> (map (map (\<lambda>x. x * gain)) audio, g'))"

text \<open>
  \<^verbatim>\<open>audio.shape[0] == 2 and random.random() < 0.5\<close>: the generator is only asked when
  there are two channels. \<^verbatim>\<open>np.flip(audio, 0)\<close> reverses the order of the channels.
\<close>

definition augment_source_channelswap :: augmentation where
  "augment_source_channelswap audio g =
     (if length audio = 2
      then (case random_random g of (u, g') \<Rightarrow> if u < 1 / 2 then (rev audio, g') else (audio, g'))
      else (audio, g))"

section \<open>Tensor operations\<close>

text \<open>
  \<^verbatim>\<open>torch.stack\<close> raises RuntimeError on an empty list and on tensors of different
  sizes. A tensor is rectangular, so its size is given by the lengths of its channels.
\<close>

definition torch_stack :: "wave list \<Rightarrow> error + wave list" where
  "torch_stack tensors =
     (case tensors of
        [] \<Rightarrow> Inl RuntimeError
      | t # rest \<Rightarrow>
          if list_all (\<lambda>u. map length u = map length t) rest then Inr tensors
          else Inl RuntimeError)"

definition wave_add :: "wave \<Rightarrow> wave \<Rightarrow> wave" where
  "wave_add a b = map2 (map2 (+)) a b"

definition wave_sub :: "wave \<Rightarrow> wave \<Rightarrow> wave" where
  "wave_sub a b = map2 (map2 (-)) a b"

text \<open>\<^verbatim>\<open>stems.sum(0)\<close> of a stacked, hence non-empty, list of stems.\<close>

definition stems_sum :: "wave list \<Rightarrow> wave" where
  "stems_sum stems = (case stems of [] \<Rightarrow> [] | t # rest \<Rightarrow> foldl wave_add t rest)"

section \<open>The audio backend\<close>

text \<open>
  Modelled from the spec: the decoding library (soundfile or torchaudio) is not part of
  the repository. A file has a sample rate and channel-major sample data; probing a
  missing file and reading a corrupt one raise RuntimeError; a read returns the frames
  of the requested window that exist, fewer than requested near the end of the file.
\<close>

record audio_file =
  rate :: nat
  data :: wave
  corrupt :: bool

record world =
  torchaudio_loaded :: bool
  files :: "path \<rightharpoonup> audio_file"

definition exists :: "world \<Rightarrow> path \<Rightarrow> bool" where
  "exists w p = (files w p \<noteq> None)"

definition read_frames :: "world \<Rightarrow> path \<Rightarrow> nat \<Rightarrow> nat option \<Rightarrow> error + wave" where
  "read_frames w p offset num_frames =
     (case files w p of
        None \<Rightarrow> Inl RuntimeError
      | Some f \<Rightarrow>
          if corrupt f then Inl RuntimeError
          else (case num_frames of
                  None \<Rightarrow> Inr (map (drop offset) (data f))
                | Some n \<Rightarrow> Inr (map (\<lambda>c. take n (drop offset c)) (data f))))"

record info =
  samplerate :: nat
  samples :: int
  duration :: rat

text \<open>
  \<^verbatim>\<open>soundfile_info\<close>: the library reports the duration as frames over sample rate.
\<close>

definition soundfile_info :: "world \<Rightarrow> path \<Rightarrow> error + info" where
  "soundfile_info w p =
     (case files w p of
        None \<Rightarrow> Inl RuntimeError
      | Some f \<Rightarrow>
          if rate f = 0 then Inl ZeroDivisionError
          else let sfi_duration = of_nat (nb_timesteps (data f)) / of_nat (rate f)
               in Inr \<lparr> samplerate = rate f,
                        samples = py_int (sfi_duration * of_nat (rate f)),
                        duration = sfi_duration \<rparr>)"

text \<open>
  \<^verbatim>\<open>torchaudio_info\<close>: \<^verbatim>\<open>si.length\<close> counts the samples of all channels.
\<close>

definition torchaudio_info :: "world \<Rightarrow> path \<Rightarrow> error + info" where
  "torchaudio_info w p =
     (case files w p of
        None \<Rightarrow> Inl RuntimeError
      | Some f \<Rightarrow>
          let si_length = length (data f) * nb_timesteps (data f);
              si_channels = length (data f)
          in if si_channels = 0 \<or> rate f = 0 then Inl ZeroDivisionError
             else Inr \<lparr> samplerate = rate f,
                        samples = int (si_length div si_channels),
                        duration = of_nat (si_length div si_channels) / of_nat (rate f) \<rparr>)"

definition audioinfo :: "world \<Rightarrow> path \<Rightarrow> error + info" where
  "audioinfo w p = (if torchaudio_loaded w then torchaudio_info w p else soundfile_info w p)"

text \<open>
  \<^verbatim>\<open>soundfile_loader\<close>: \<^verbatim>\<open>if dur:\<close> is false for None and for 0, and then
  \<^verbatim>\<open>stop = dur\<close>: None reads to the end of the file, 0 is the empty window. The
  window is \<^verbatim>\<open>[start, stop)\<close> in frames.
\<close>

definition soundfile_loader :: "world \<Rightarrow> path \<Rightarrow> rat \<Rightarrow> rat option \<Rightarrow> error + wave" where
  "soundfile_loader w p start dur =
     (case soundfile_info w p of
        Inl e \<Rightarrow> Inl e
      | Inr i \<Rightarrow>
          let start_frame = py_int (start * of_nat (samplerate i))
          in (case dur of
                None \<Rightarrow> read_frames w p (nat start_frame) None
              | Some d \<Rightarrow>
                  let stop = (if d = 0 then 0
                              else start_frame + py_int (d * of_nat (samplerate i)))
                  in read_frames w p (nat start_frame) (Some (nat (stop - start_frame)))))"

text \<open>\<^verbatim>\<open>torchaudio_loader\<close>: without a duration the whole file is loaded.\<close>

definition torchaudio_loader :: "world \<Rightarrow> path \<Rightarrow> rat \<Rightarrow> rat option \<Rightarrow> error + wave" where
  "torchaudio_loader w p start dur =
     (case torchaudio_info w p of
        Inl e \<Rightarrow> Inl e
      | Inr i \<Rightarrow>
          (case dur of
             None \<Rightarrow> read_frames w p 0 None
           | Some d \<Rightarrow>
               let num_frames = py_int (d * of_nat (samplerate i));
                   offset = py_int (start * of_nat (samplerate i))
               in read_frames w p (nat offset) (Some (nat num_frames))))"

definition audioloader :: "world \<Rightarrow> path \<Rightarrow> rat \<Rightarrow> rat option \<Rightarrow> error + wave" where
  "audioloader w p start dur =
     (if torchaudio_loaded w then torchaudio_loader w p start dur
      else soundfile_loader w p start dur)"

text \<open>
  The frames of a file that a load from \<open>start\<close> with the duration \<open>d\<close> (both in
  seconds) returns.
\<close>

definition window :: "audio_file \<Rightarrow> rat \<Rightarrow> rat \<Rightarrow> wave" where
  "window f start d =
     map (\<lambda>c. take (nat (py_int (d * of_nat (rate f))))
                 (drop (nat (py_int (start * of_nat (rate f)))) c)) (data f)"

section \<open>AlignedSources\<close>

text \<open>
  The attributes of an instance. The directory scan of \<^verbatim>\<open>_get_paths\<close> is not modelled:
  the list of (input, output) paths it finds is a parameter of the constructor.
\<close>

record AlignedSources =
  a_split :: string
  a_sample_rate :: nat
  a_seq_duration :: "rat option"
  a_random_excerpt :: bool
  tuple_paths :: "(path \<times> path) list"

text \<open>
  \<^verbatim>\<open>__init__\<close>, lines 299 to 310. \<^verbatim>\<open>seq_duration <= 0\<close> raises TypeError when
  \<^verbatim>\<open>seq_duration\<close> is None, the default of the parameter.
\<close>

definition AlignedSources_init ::
  "string \<Rightarrow> rat option \<Rightarrow> nat \<Rightarrow> (path \<times> path) list \<Rightarrow> error + AlignedSources" where
  "AlignedSources_init split seq_duration sample_rate found =
     (case seq_duration of
        None \<Rightarrow> Inl TypeError
      | Some d \<Rightarrow>
          Inr \<lparr> a_split = split, a_sample_rate = sample_rate,
                a_seq_duration = (if d \<le> 0 then None else Some d),
                a_random_excerpt = (split = ''train''),
                tuple_paths = found \<rparr>)"

text \<open>
  The excerpt start of lines 316 to 325: an error, a retry (None), or the start with the
  generator after the draw.
\<close>

definition aligned_start ::
  "AlignedSources \<Rightarrow> info \<Rightarrow> info \<Rightarrow> rng \<Rightarrow> error + (rat \<times> rng) option" where
  "aligned_start ds input_info output_info g =
     (if a_random_excerpt ds
      then (let dur = min (duration input_info) (duration output_info)
            in case a_seq_duration ds of
                 None \<Rightarrow> Inl TypeError
               | Some s \<Rightarrow>
                   if dur < s then Inr None
                   else Inr (Some (random_uniform 0 (dur - s) g)))
      else Inr (Some (0, g)))"

text \<open>
  The length check of line 338: TypeError when \<^verbatim>\<open>seq_duration\<close> is None.
\<close>

definition aligned_short ::
  "AlignedSources \<Rightarrow> info \<Rightarrow> info \<Rightarrow> wave \<Rightarrow> wave \<Rightarrow> error + bool" where
  "aligned_short ds input_info output_info X_audio Y_audio =
     (case a_seq_duration ds of
        None \<Rightarrow> Inl TypeError
      | Some s \<Rightarrow>
          Inr (int (nb_timesteps X_audio) < py_int (s * of_nat (samplerate input_info))
               \<or> int (nb_timesteps Y_audio) < py_int (s * of_nat (samplerate output_info))))"

text \<open>
  One run of the body of a \<^verbatim>\<open>__getitem__\<close> ends in an exception, in
  \<^verbatim>\<open>return self.__getitem__(index')\<close> (a retry, with the generator as it is then), or
  in a returned example.
\<close>

datatype 'a attempt = Raise error | Retry rng int | Done 'a rng

text \<open>
  The loads and the length check of lines 326 to 341, once the start is known.
\<close>

definition aligned_load ::
  "world \<Rightarrow> AlignedSources \<Rightarrow> path \<Rightarrow> path \<Rightarrow> info \<Rightarrow> info \<Rightarrow> rat \<Rightarrow> rng \<Rightarrow> int
     \<Rightarrow> (wave \<times> wave) attempt" where
  "aligned_load w ds input_path output_path input_info output_info start g index =
     (case audioloader w input_path start (a_seq_duration ds) of
        Inl e \<Rightarrow> if is_RuntimeError e then Retry g (neighbour index) else Raise e
      | Inr X_audio \<Rightarrow>
     (case audioloader w output_path start (a_seq_duration ds) of
        Inl e \<Rightarrow> if is_RuntimeError e then Retry g (neighbour index) else Raise e
      | Inr Y_audio \<Rightarrow>
     (case aligned_short ds input_info output_info X_audio Y_audio of
        Inl e \<Rightarrow> Raise e
      | Inr True \<Rightarrow> Retry g (neighbour index)
      | Inr False \<Rightarrow> Done (X_audio, Y_audio) g)))"

text \<open>The body of \<^verbatim>\<open>__getitem__\<close>, lines 312 to 341.\<close>

definition aligned_attempt ::
  "world \<Rightarrow> AlignedSources \<Rightarrow> rng \<Rightarrow> int \<Rightarrow> (wave \<times> wave) attempt" where
  "aligned_attempt w ds g index =
     (case py_getitem (tuple_paths ds) index of
        Inl e \<Rightarrow> Raise e
      | Inr (input_path, output_path) \<Rightarrow>
     (case audioinfo w input_path of
        Inl e \<Rightarrow> Raise e
      | Inr input_info \<Rightarrow>
     (case audioinfo w output_path of
        Inl e \<Rightarrow> Raise e
      | Inr output_info \<Rightarrow>
     (case aligned_start ds input_info output_info g of
        Inl e \<Rightarrow> Raise e
      | Inr None \<Rightarrow> Retry g (neighbour index)
      | Inr (Some (start, g')) \<Rightarrow>
          aligned_load w ds input_path output_path input_info output_info start g' index))))"

text \<open>
  \<^verbatim>\<open>__getitem__\<close> with its recursion. The first argument is the number of nested calls
  the interpreter still allows: at the recursion limit Python raises RecursionError.
\<close>

fun aligned_getitem ::
  "nat \<Rightarrow> world \<Rightarrow> AlignedSources \<Rightarrow> rng \<Rightarrow> int \<Rightarrow> error + ((wave \<times> wave) \<times> rng)" where
  "aligned_getitem 0 w ds g index = Inl RecursionError"
| "aligned_getitem (Suc depth) w ds g index =
     (case aligned_attempt w ds g index of
        Raise e \<Rightarrow> Inl e
      | Retry g' index' \<Rightarrow> aligned_getitem depth w ds g' index'
      | Done example g' \<Rightarrow> Inr (example, g'))"

definition aligned_len :: "AlignedSources \<Rightarrow> nat" where
  "aligned_len ds = length (tuple_paths ds)"

section \<open>UnalignedSources\<close>

record UnalignedSources =
  u_sample_rate :: nat
  u_seq_duration :: "rat option"
  nb_samples :: nat
  source_folders :: "string list"
  sources :: "path list list"

text \<open>
  \<^verbatim>\<open>_get_paths\<close>, lines 265 to 273: one list of files per source folder. The attribute
  \<^verbatim>\<open>self.split\<close> is read in the loop body; an attribute that was never assigned raises
  AttributeError. The glob of a folder is the parameter \<open>glob\<close>.
\<close>

definition unaligned_get_paths ::
  "string option \<Rightarrow> (string \<Rightarrow> string \<Rightarrow> path list) \<Rightarrow> string list \<Rightarrow> error + path list list" where
  "unaligned_get_paths split_attribute glob folders =
     (case folders of
        [] \<Rightarrow> Inr []
      | _ # _ \<Rightarrow>
          (case split_attribute of
             None \<Rightarrow> Inl AttributeError
           | Some split \<Rightarrow> Inr (map (glob split) folders)))"

text \<open>
  \<^verbatim>\<open>__init__\<close>, lines 240 to 249. The parameter \<^verbatim>\<open>split\<close> is not stored, so
  \<^verbatim>\<open>_get_paths\<close> runs without the attribute.
\<close>

definition UnalignedSources_init ::
  "string \<Rightarrow> rat option \<Rightarrow> string \<Rightarrow> string list \<Rightarrow> (string \<Rightarrow> string \<Rightarrow> path list) \<Rightarrow> nat \<Rightarrow> nat
     \<Rightarrow> error + UnalignedSources" where
  "UnalignedSources_init split seq_duration target interferences glob sample_rate n =
     (case seq_duration of
        None \<Rightarrow> Inl TypeError
      | Some d \<Rightarrow>
          (case unaligned_get_paths None glob (interferences @ [target]) of
             Inl e \<Rightarrow> Inl e
           | Inr found \<Rightarrow>
               Inr \<lparr> u_sample_rate = sample_rate,
                     u_seq_duration = (if d \<le> 0 then None else Some d),
                     nb_samples = n,
                     source_folders = interferences @ [target],
                     sources = found \<rparr>))"

text \<open>\<^verbatim>\<open>random_product\<close> with \<^verbatim>\<open>repeat=1\<close>: one random choice per pool, in order.\<close>

fun random_product :: "'a list list \<Rightarrow> rng \<Rightarrow> error + ('a list \<times> rng)" where
  "random_product [] g = Inr ([], g)"
| "random_product (pool # pools) g =
     (case random_choice pool g of
        Inl e \<Rightarrow> Inl e
      | Inr (x, g') \<Rightarrow>
          (case random_product pools g' of
             Inl e \<Rightarrow> Inl e
           | Inr (xs, g'') \<Rightarrow> Inr (x # xs, g'')))"

definition load_audio :: "world \<Rightarrow> UnalignedSources \<Rightarrow> path \<Rightarrow> error + wave" where
  "load_audio w ds fp = audioloader w fp 0 (u_seq_duration ds)"

text \<open>\<^verbatim>\<open>list(map(self.load_audio, input_tuple))\<close>: the first failing load raises.\<close>

fun load_all :: "world \<Rightarrow> UnalignedSources \<Rightarrow> path list \<Rightarrow> error + wave list" where
  "load_all w ds [] = Inr []"
| "load_all w ds (fp # fps) =
     (case load_audio w ds fp of
        Inl e \<Rightarrow> Inl e
      | Inr audio \<Rightarrow>
          (case load_all w ds fps of
             Inl e \<Rightarrow> Inl e
           | Inr rest \<Rightarrow> Inr (audio # rest)))"

text \<open>\<^verbatim>\<open>__getitem__\<close>, lines 251 to 256.\<close>

definition unaligned_getitem ::
  "world \<Rightarrow> UnalignedSources \<Rightarrow> rng \<Rightarrow> int \<Rightarrow> error + ((wave \<times> wave) \<times> rng)" where
  "unaligned_getitem w ds g index =
     (case random_product (sources ds) g of
        Inl e \<Rightarrow> Inl e
      | Inr (input_tuple, g') \<Rightarrow>
     (case load_all w ds input_tuple of
        Inl e \<Rightarrow> Inl e
      | Inr sample_sources \<Rightarrow>
     (case torch_stack sample_sources of
        Inl e \<Rightarrow> Inl e
      | Inr stems \<Rightarrow>
     (case py_getitem input_tuple (- 1) of
        Inl e \<Rightarrow> Inl e
      | Inr fp \<Rightarrow>
     (case load_audio w ds fp of
        Inl e \<Rightarrow> Inl e
      | Inr target \<Rightarrow> Inr ((stems_sum stems, target), g'))))))"

definition unaligned_len :: "UnalignedSources \<Rightarrow> nat" where
  "unaligned_len ds = nb_samples ds"

section \<open>MixedSources\<close>

record MixedSources =
  m_split :: string
  m_sample_rate :: nat
  m_seq_duration :: "rat option"
  m_random_excerpt :: bool
  m_augmentations :: bool
  target_file :: string
  interferers :: "string list"
  tracks :: "path list"

text \<open>
  \<^verbatim>\<open>__init__\<close>, lines 386 to 398; the track folders found by \<^verbatim>\<open>_get_paths\<close> are a
  parameter.
\<close>

definition MixedSources_init ::
  "string \<Rightarrow> string \<Rightarrow> string list \<Rightarrow> rat option \<Rightarrow> nat \<Rightarrow> path list \<Rightarrow> error + MixedSources" where
  "MixedSources_init split target interf seq_duration sample_rate found =
     (case seq_duration of
        None \<Rightarrow> Inl TypeError
      | Some d \<Rightarrow>
          Inr \<lparr> m_split = split, m_sample_rate = sample_rate,
                m_seq_duration = (if d \<le> 0 then None else Some d),
                m_random_excerpt = (split = ''train''),
                m_augmentations = (split = ''train''),
                target_file = target, interferers = interf, tracks = found \<rparr>)"

text \<open>Lines 405 to 408: the track folder of one source.\<close>

definition mixed_track_dir :: "MixedSources \<Rightarrow> rng \<Rightarrow> int \<Rightarrow> error + (path \<times> rng)" where
  "mixed_track_dir ds g index =
     (if m_augmentations ds then random_choice (tracks ds) g
      else (case py_getitem (tracks ds) index of Inl e \<Rightarrow> Inl e | Inr d \<Rightarrow> Inr (d, g)))"

text \<open>\<^verbatim>\<open>track_dir / source\<close>.\<close>

definition joinpath :: "path \<Rightarrow> string \<Rightarrow> path" where
  "joinpath track_dir source = track_dir @ ''/'' @ source"

text \<open>
  The body of the \<^verbatim>\<open>for\<close> loop, lines 405 to 428, for one source: the stem loaded, a
  retry or an exception. A missing file retries the same index, a short file and a
  RuntimeError of the loader retry the neighbour. The start is drawn for every source.
\<close>

definition mixed_source :: "world \<Rightarrow> MixedSources \<Rightarrow> string \<Rightarrow> rng \<Rightarrow> int \<Rightarrow> wave attempt" where
  "mixed_source w ds source g index =
     (case mixed_track_dir ds g index of
        Inl e \<Rightarrow> Raise e
      | Inr (track_dir, g1) \<Rightarrow>
          if exists w (joinpath track_dir source)
          then
            (case audioinfo w (joinpath track_dir source) of
               Inl e \<Rightarrow> Raise e
             | Inr input_info \<Rightarrow>
            (case m_seq_duration ds of
               None \<Rightarrow> Raise TypeError
             | Some s \<Rightarrow>
                 if duration input_info < s then Retry g1 (neighbour index)
                 else
                   (case random_uniform 0 (duration input_info - s) g1 of
                      (start, g2) \<Rightarrow>
                   (case audioloader w (joinpath track_dir source) start (Some s) of
                      Inl e \<Rightarrow> if is_RuntimeError e then Retry g2 (neighbour index) else Raise e
                    | Inr X_audio \<Rightarrow> Done X_audio g2))))
          else Retry g1 index)"

text \<open>The \<^verbatim>\<open>for\<close> loop over the sources, appending to \<^verbatim>\<open>audio_sources\<close>.\<close>

fun mixed_sources ::
  "world \<Rightarrow> MixedSources \<Rightarrow> string list \<Rightarrow> wave list \<Rightarrow> rng \<Rightarrow> int \<Rightarrow> wave list attempt" where
  "mixed_sources w ds [] audio_sources g index = Done audio_sources g"
| "mixed_sources w ds (source # rest) audio_sources g index =
     (case mixed_source w ds source g index of
        Raise e \<Rightarrow> Raise e
      | Retry g' index' \<Rightarrow> Retry g' index'
      | Done X_audio g' \<Rightarrow> mixed_sources w ds rest (audio_sources @ [X_audio]) g' index)"

text \<open>The body of \<^verbatim>\<open>__getitem__\<close>, lines 400 to 434.\<close>

definition mixed_attempt :: "world \<Rightarrow> MixedSources \<Rightarrow> rng \<Rightarrow> int \<Rightarrow> (wave \<times> wave) attempt" where
  "mixed_attempt w ds g index =
     (case mixed_sources w ds (interferers ds @ [target_file ds]) [] g index of
        Raise e \<Rightarrow> Raise e
      | Retry g' index' \<Rightarrow> Retry g' index'
      | Done audio_sources g' \<Rightarrow>
          (case torch_stack audio_sources of
             Inl e \<Rightarrow> Raise e
           | Inr stems \<Rightarrow>
               (case py_getitem stems (- 1) of
                  Inl e \<Rightarrow> Raise e
                | Inr y_audio \<Rightarrow> Done (stems_sum stems, y_audio) g')))"

text \<open>\<^verbatim>\<open>__getitem__\<close> with its recursion, as for AlignedSources.\<close>

fun mixed_getitem ::
  "nat \<Rightarrow> world \<Rightarrow> MixedSources \<Rightarrow> rng \<Rightarrow> int \<Rightarrow> error + ((wave \<times> wave) \<times> rng)" where
  "mixed_getitem 0 w ds g index = Inl RecursionError"
| "mixed_getitem (Suc depth) w ds g index =
     (case mixed_attempt w ds g index of
        Raise e \<Rightarrow> Inl e
      | Retry g' index' \<Rightarrow> mixed_getitem depth w ds g' index'
      | Done example g' \<Rightarrow> Inr (example, g'))"

definition mixed_len :: "MixedSources \<Rightarrow> nat" where
  "mixed_len ds = length (tracks ds)"

section \<open>MUSDBDataset\<close>

text \<open>
  Modelled from the spec: the corpus provider (the musdb package) is not part of the
  repository. A track has a duration, a settable excerpt window
  (\<open>chunk_start\<close>, \<open>chunk_duration\<close>), its stems by source name, its mixture and its
  targets by name. The audio of a stem is sample-major (one list of channel values per
  frame) and is the part of the stored frames inside the track's current window.
\<close>

record track =
  t_duration :: rat
  t_rate :: nat
  chunk_start :: rat
  chunk_duration :: "rat option"
  t_sources :: "(string \<times> wave) list"
  t_audio :: wave
  t_targets :: "(string \<times> wave) list"

definition stem_audio :: "track \<Rightarrow> wave \<Rightarrow> wave" where
  "stem_audio t stored =
     (let offset = nat (py_int (chunk_start t * of_nat (t_rate t)))
      in case chunk_duration t of
           None \<Rightarrow> drop offset stored
         | Some d \<Rightarrow> take (nat (py_int (d * of_nat (t_rate t)))) (drop offset stored))"

record MUSDBDataset =
  mus_seq_duration :: "rat option"
  mus_target :: string
  mus_split :: string
  samples_per_track :: int
  source_augmentations :: augmentation
  random_track_mix :: bool
  mus_tracks :: "track list"
  setup_sources :: "string list"

text \<open>\<^verbatim>\<open>list.index\<close>: the first position of a value, ValueError when it is absent.\<close>

fun list_index :: "'a list \<Rightarrow> 'a \<Rightarrow> error + nat" where
  "list_index [] v = Inl ValueError"
| "list_index (x # xs) v =
     (if x = v then Inr 0
      else (case list_index xs v of Inl e \<Rightarrow> Inl e | Inr k \<Rightarrow> Inr (Suc k)))"

text \<open>
  The body of the loop of lines 533 to 553 for one source: the stem loaded, the track
  it came from, the tracks with the window set, and the generator. A track object is
  named by its position in \<^verbatim>\<open>self.mus.tracks\<close>; setting its window updates the list.
  \<^verbatim>\<open>track.duration - self.seq_duration\<close> raises TypeError for None.
\<close>

definition musdb_source ::
  "MUSDBDataset \<Rightarrow> string \<Rightarrow> nat \<Rightarrow> track list \<Rightarrow> rng
     \<Rightarrow> error + (wave \<times> nat \<times> track list \<times> rng)" where
  "musdb_source ds source pos ts g =
     (case (if random_track_mix ds then random_choice [0..<length ts] g else Inr (pos, g)) of
        Inl e \<Rightarrow> Inl e
      | Inr (pos', g1) \<Rightarrow>
     (case mus_seq_duration ds of
        None \<Rightarrow> Inl TypeError
      | Some s \<Rightarrow>
     (case random_uniform 0 (t_duration (ts ! pos') - s) g1 of
        (start, g2) \<Rightarrow>
     (case map_of (t_sources (ts ! pos')) source of
        None \<Rightarrow> Inl KeyError
      | Some stored \<Rightarrow>
     (case source_augmentations ds
             (transpose
                (stem_audio ((ts ! pos')\<lparr>chunk_start := start, chunk_duration := Some s\<rparr>) stored))
             g2 of
        (audio, g3) \<Rightarrow>
          Inr (audio, pos',
               ts[pos' := (ts ! pos')\<lparr>chunk_start := start, chunk_duration := Some s\<rparr>],
               g3))))))"

text \<open>
  The loop over \<^verbatim>\<open>enumerate(self.mus.setup['sources'])\<close>, with \<^verbatim>\<open>target_ind\<close> and
  \<^verbatim>\<open>audio_sources\<close>.
\<close>

fun musdb_train_loop ::
  "MUSDBDataset \<Rightarrow> (nat \<times> string) list \<Rightarrow> nat \<Rightarrow> track list \<Rightarrow> nat option \<Rightarrow> wave list \<Rightarrow> rng
     \<Rightarrow> error + (nat option \<times> wave list \<times> track list \<times> rng)" where
  "musdb_train_loop ds [] pos ts target_ind audio_sources g =
     Inr (target_ind, audio_sources, ts, g)"
| "musdb_train_loop ds ((k, source) # rest) pos ts target_ind audio_sources g =
     (case musdb_source ds source pos ts g of
        Inl e \<Rightarrow> Inl e
      | Inr (audio, pos', ts', g') \<Rightarrow>
          musdb_train_loop ds rest pos' ts'
            (if source = mus_target ds then Some k else target_ind)
            (audio_sources @ [audio]) g')"

text \<open>\<^verbatim>\<open>__getitem__\<close>, lines 524 to 581.\<close>

definition musdb_getitem ::
  "MUSDBDataset \<Rightarrow> rng \<Rightarrow> int \<Rightarrow> error + ((wave \<times> wave) \<times> track list \<times> rng)" where
  "musdb_getitem ds g index =
     (if samples_per_track ds = 0 then Inl ZeroDivisionError
      else
     (case py_getitem [0..<length (mus_tracks ds)] (index div samples_per_track ds) of
        Inl e \<Rightarrow> Inl e
      | Inr pos \<Rightarrow>
          if mus_split ds = ''train''
          then
            (case musdb_train_loop ds (enumerate 0 (setup_sources ds)) pos (mus_tracks ds)
                    None [] g of
               Inl e \<Rightarrow> Inl e
             | Inr (target_ind, audio_sources, ts, g') \<Rightarrow>
            (case torch_stack audio_sources of
               Inl e \<Rightarrow> Inl e
             | Inr stems \<Rightarrow>
            (case target_ind of
               Some k \<Rightarrow>
                 (case py_getitem stems (int k) of
                    Inl e \<Rightarrow> Inl e
                  | Inr y \<Rightarrow> Inr ((stems_sum stems, y), ts, g'))
             | None \<Rightarrow>
                 (case list_index (setup_sources ds) ''vocals'' of
                    Inl e \<Rightarrow> Inl e
                  | Inr vocind \<Rightarrow>
                      (case py_getitem stems (int vocind) of
                         Inl e \<Rightarrow> Inl e
                       | Inr vocals \<Rightarrow>
                           Inr ((stems_sum stems, wave_sub (stems_sum stems) vocals),
                                ts, g'))))))
          else
            (case map_of (t_targets (mus_tracks ds ! pos)) (mus_target ds) of
               None \<Rightarrow> Inl KeyError
             | Some stored \<Rightarrow>
                 Inr ((transpose (stem_audio (mus_tracks ds ! pos) (t_audio (mus_tracks ds ! pos))),
                       transpose (stem_audio (mus_tracks ds ! pos) stored)),
                      mus_tracks ds, g))))"

definition musdb_len :: "MUSDBDataset \<Rightarrow> int" where
  "musdb_len ds = int (length (mus_tracks ds)) * samples_per_track ds"

section \<open>Concrete worlds and datasets\<close>

text \<open>
  Small file systems and instances on which the properties below are evaluated. Sample
  rates of a few hertz keep the files short.
\<close>

definition studio :: world where
  "studio =
     \<lparr> torchaudio_loaded = True,
       files =
         [''train/1/bass.wav'' \<mapsto> \<lparr> rate = 1, data = [[1, 2, 3, 4]], corrupt = False \<rparr>,
          ''train/1/vocals.wav'' \<mapsto> \<lparr> rate = 1, data = [[10, 20, 30, 40]], corrupt = False \<rparr>,
          ''valid/1/mixture.wav'' \<mapsto> \<lparr> rate = 2, data = [[1, 2, 3, 4]], corrupt = False \<rparr>,
          ''valid/1/vocals.wav'' \<mapsto>
             \<lparr> rate = 2, data = [[5, 6, 7, 8], [9, 10, 11, 12]], corrupt = False \<rparr>,
          ''valid/2/bass.wav'' \<mapsto> \<lparr> rate = 1, data = [[1, 2, 3, 4]], corrupt = False \<rparr>,
          ''valid/2/vocals.wav'' \<mapsto> \<lparr> rate = 1, data = [[10, 20, 30, 40]], corrupt = False \<rparr>,
          ''valid/3/vocals.wav'' \<mapsto> \<lparr> rate = 1, data = [[5, 6, 7, 8]], corrupt = False \<rparr>] \<rparr>"

text \<open>A mono input and a stereo output, one second each, in the validation split.\<close>

definition aligned_valid :: AlignedSources where
  "aligned_valid =
     \<lparr> a_split = ''valid'', a_sample_rate = 2, a_seq_duration = Some 1,
       a_random_excerpt = False,
       tuple_paths = [(''valid/1/mixture.wav'', ''valid/1/vocals.wav'')] \<rparr>"

text \<open>The same folder, constructed with \<^verbatim>\<open>seq_duration=0\<close>.\<close>

definition aligned_full :: AlignedSources where
  "aligned_full =
     \<lparr> a_split = ''valid'', a_sample_rate = 2, a_seq_duration = None,
       a_random_excerpt = False,
       tuple_paths = [(''valid/1/mixture.wav'', ''valid/1/vocals.wav'')] \<rparr>"

definition mixed_train :: MixedSources where
  "mixed_train =
     \<lparr> m_split = ''train'', m_sample_rate = 1, m_seq_duration = Some 2,
       m_random_excerpt = True, m_augmentations = True,
       target_file = ''vocals.wav'', interferers = [''bass.wav''],
       tracks = [''train/1''] \<rparr>"

text \<open>The same instance, constructed with \<^verbatim>\<open>seq_duration=0\<close>.\<close>

definition mixed_full :: MixedSources where
  "mixed_full =
     \<lparr> m_split = ''train'', m_sample_rate = 1, m_seq_duration = None,
       m_random_excerpt = True, m_augmentations = True,
       target_file = ''vocals.wav'', interferers = [''bass.wav''],
       tracks = [''train/1''] \<rparr>"

text \<open>A validation split of MixedSources with one track folder.\<close>

definition mixed_valid :: MixedSources where
  "mixed_valid =
     \<lparr> m_split = ''valid'', m_sample_rate = 1, m_seq_duration = Some 2,
       m_random_excerpt = False, m_augmentations = False,
       target_file = ''vocals.wav'', interferers = [''bass.wav''],
       tracks = [''valid/2''] \<rparr>"

text \<open>
  A validation split of two track folders; the first has no \<^verbatim>\<open>bass.wav\<close>.
\<close>

definition mixed_missing :: MixedSources where
  "mixed_missing =
     \<lparr> m_split = ''valid'', m_sample_rate = 1, m_seq_duration = Some 2,
       m_random_excerpt = False, m_augmentations = False,
       target_file = ''vocals.wav'', interferers = [''bass.wav''],
       tracks = [''valid/3'', ''valid/2''] \<rparr>"

text \<open>Two source folders with one file each.\<close>

definition unaligned_pair :: UnalignedSources where
  "unaligned_pair =
     \<lparr> u_sample_rate = 1, u_seq_duration = Some 2, nb_samples = 1000,
       source_folders = [''bass'', ''vocals''],
       sources = [[''train/1/bass.wav''], [''train/1/vocals.wav'']] \<rparr>"

text \<open>Files of 100 frames at 8000 Hz, and an excerpt of 3/256 s: 93.75 frames.\<close>

definition studio8k :: world where
  "studio8k =
     \<lparr> torchaudio_loaded = True,
       files =
         [''valid/1/mixture.wav'' \<mapsto> \<lparr> rate = 8000, data = [replicate 100 0], corrupt = False \<rparr>,
          ''valid/1/vocals.wav'' \<mapsto> \<lparr> rate = 8000, data = [replicate 100 0], corrupt = False \<rparr>] \<rparr>"

definition aligned_8k :: AlignedSources where
  "aligned_8k =
     \<lparr> a_split = ''valid'', a_sample_rate = 8000, a_seq_duration = Some (3 / 256),
       a_random_excerpt = False,
       tuple_paths = [(''valid/1/mixture.wav'', ''valid/1/vocals.wav'')] \<rparr>"

text \<open>A corpus of one mono track of four frames, with the stems vocals and drums.\<close>

definition song :: track where
  "song =
     \<lparr> t_duration = 4, t_rate = 1, chunk_start = 0, chunk_duration = None,
       t_sources = [(''vocals'', [[1], [2], [3], [4]]), (''drums'', [[10], [20], [30], [40]])],
       t_audio = [[11], [22], [33], [44]],
       t_targets = [(''vocals'', [[1], [2], [3], [4]]),
                    (''accompaniment'', [[10], [20], [30], [40]])] \<rparr>"

definition musdb_train :: MUSDBDataset where
  "musdb_train =
     \<lparr> mus_seq_duration = Some 2, mus_target = ''accompaniment'', mus_split = ''train'',
       samples_per_track = 1, source_augmentations = (\<lambda>audio g. (audio, g)),
       random_track_mix = False, mus_tracks = [song],
       setup_sources = [''vocals'', ''drums''] \<rparr>"


definition musdb_valid :: MUSDBDataset where
  "musdb_valid =
     \<lparr> mus_seq_duration = None, mus_target = ''vocals'', mus_split = ''valid'',
       samples_per_track = 1, source_augmentations = (\<lambda>audio g. (audio, g)),
       random_track_mix = False, mus_tracks = [song],
       setup_sources = [''vocals'', ''drums''] \<rparr>"

section \<open>Properties\<close>

subsection \<open>Stacked stems and their sum\<close>

lemma shape_of_lengths:
  assumes "map length a = map length b"
  shows "shape a = shape b"
proof (cases a)
  case Nil
  with assms show ?thesis by simp
next
  case (Cons c a')
  with assms obtain d b' where b: "b = d # b'" by (cases b) auto
  from assms have "length a = length b" by (rule map_eq_imp_length_eq)
  with assms Cons b show ?thesis by (simp add: shape_def nb_timesteps_def)
qed

lemma lengths_wave_add: "map length a = map length b \<Longrightarrow> map length (wave_add a b) = map length a"
proof (induction a arbitrary: b)
  case Nil
  then show ?case by (simp add: wave_add_def)
next
  case (Cons c a)
  then obtain d b' where b: "b = d # b'" by (cases b) auto
  with Cons.prems have "length c = length d" "map length a = map length b'" by auto
  with Cons.IH [of b'] b show ?case by (simp add: wave_add_def)
qed

lemma lengths_wave_sub: "map length a = map length b \<Longrightarrow> map length (wave_sub a b) = map length a"
proof (induction a arbitrary: b)
  case Nil
  then show ?case by (simp add: wave_sub_def)
next
  case (Cons c a)
  then obtain d b' where b: "b = d # b'" by (cases b) auto
  with Cons.prems have "length c = length d" "map length a = map length b'" by auto
  with Cons.IH [of b'] b show ?case by (simp add: wave_sub_def)
qed

lemma lengths_foldl_wave_add:
  "\<forall>u \<in> set rest. map length u = map length t \<Longrightarrow> map length (foldl wave_add t rest) = map length t"
proof (induction rest arbitrary: t)
  case Nil
  then show ?case by simp
next
  case (Cons u rest)
  have step: "map length (wave_add t u) = map length t"
    using Cons.prems by (simp add: lengths_wave_add)
  have "map length (foldl wave_add (wave_add t u) rest) = map length (wave_add t u)"
    using Cons.prems step by (intro Cons.IH) simp
  with step show ?case by simp
qed

lemma torch_stack_Inr:
  assumes "torch_stack ts = Inr stems"
  obtains t rest where "ts = t # rest" and "stems = t # rest"
    and "\<forall>u \<in> set rest. map length u = map length t"
proof (cases ts)
  case Nil
  with assms show ?thesis by (simp add: torch_stack_def)
next
  case (Cons t rest)
  with assms have "list_all (\<lambda>u. map length u = map length t) rest" and "stems = t # rest"
    by (simp_all add: torch_stack_def split: if_splits)
  with Cons that show ?thesis by (simp add: list_all_iff)
qed

lemma lengths_stems_sum:
  assumes "torch_stack ts = Inr stems" and "u \<in> set stems"
  shows "map length (stems_sum stems) = map length u"
proof -
  from assms(1) obtain t rest where ts: "stems = t # rest"
    and all: "\<forall>v \<in> set rest. map length v = map length t"
    by (rule torch_stack_Inr)
  have "map length (foldl wave_add t rest) = map length t"
    using all by (rule lengths_foldl_wave_add)
  moreover have "map length u = map length t"
  proof (cases "u = t")
    case True
    then show ?thesis by simp
  next
    case False
    with assms(2) ts have "u \<in> set rest" by simp
    with all show ?thesis by blast
  qed
  ultimately show ?thesis using ts by (simp add: stems_sum_def)
qed

lemma wave_add_nth:
  "map length a = map length b \<Longrightarrow> c < length a \<Longrightarrow> n < length (a ! c) \<Longrightarrow>
     wave_add a b ! c ! n = a ! c ! n + b ! c ! n"
proof -
  assume eq: "map length a = map length b" and c: "c < length a" and n: "n < length (a ! c)"
  from eq have len: "length a = length b" by (rule map_eq_imp_length_eq)
  from eq have "map length a ! c = map length b ! c" by simp
  with c len have "length (a ! c) = length (b ! c)" by simp
  with c n len show ?thesis by (simp add: wave_add_def)
qed


lemma foldl_wave_add_nth:
  "\<forall>u \<in> set rest. map length u = map length t \<Longrightarrow> c < length t \<Longrightarrow> n < length (t ! c) \<Longrightarrow>
     foldl wave_add t rest ! c ! n = t ! c ! n + (\<Sum>s\<leftarrow>rest. s ! c ! n)"
proof (induction rest arbitrary: t)
  case Nil
  then show ?case by simp
next
  case (Cons u rest)
  have eq: "map length t = map length u" using Cons.prems(1) by simp
  have step: "map length (wave_add t u) = map length t"
    using eq by (simp add: lengths_wave_add)
  have c': "c < length (wave_add t u)"
    using map_eq_imp_length_eq [OF step] Cons.prems(2) by simp
  have "map length (wave_add t u) ! c = map length t ! c"
    using step by simp
  then have n': "n < length (wave_add t u ! c)"
    using Cons.prems(2,3) c' by simp
  have "foldl wave_add (wave_add t u) rest ! c ! n
          = wave_add t u ! c ! n + (\<Sum>s\<leftarrow>rest. s ! c ! n)"
    using Cons.prems(1) step c' n' by (intro Cons.IH) simp_all
  then show ?case
    using wave_add_nth [OF eq Cons.prems(2,3)] by simp
qed

lemma stems_sum_nth:
  assumes "torch_stack ts = Inr stems" and "c < length (stems_sum stems)"
    and "n < length (stems_sum stems ! c)"
  shows "stems_sum stems ! c ! n = (\<Sum>s\<leftarrow>stems. s ! c ! n)"
proof -
  from assms(1) obtain t rest where ts: "stems = t # rest"
    and all: "\<forall>v \<in> set rest. map length v = map length t"
    by (rule torch_stack_Inr)
  have l: "map length (stems_sum stems) = map length t"
    using lengths_stems_sum [OF assms(1), of t] ts by simp
  have c: "c < length t" using map_eq_imp_length_eq [OF l] assms(2) by simp
  have "map length (stems_sum stems) ! c = map length t ! c" using l by simp
  then have n: "n < length (t ! c)" using assms(2,3) c by simp
  have "foldl wave_add t rest ! c ! n = t ! c ! n + (\<Sum>s\<leftarrow>rest. s ! c ! n)"
    using all c n by (rule foldl_wave_add_nth)
  then show ?thesis
    using ts by (simp add: stems_sum_def)
qed

subsection \<open>Python helpers and UnalignedSources\<close>

lemma py_getitem_last:
  assumes "py_getitem xs (- 1) = Inr x"
  shows "xs \<noteq> [] \<and> x = last xs"
proof (cases xs rule: rev_cases)
  case Nil
  with assms show ?thesis by (simp add: py_getitem_def)
next
  case (snoc ys y)
  with assms show ?thesis by (simp add: py_getitem_def nth_append split: if_splits)
qed

lemma py_getitem_nat: "py_getitem xs (int k) = Inr x \<Longrightarrow> x = xs ! k"
  by (simp add: py_getitem_def split: if_splits)

lemma py_getitem_mem: "py_getitem xs i = Inr x \<Longrightarrow> x \<in> set xs"
  by (auto simp: py_getitem_def split: if_splits)

lemma load_all_Inr:
  "load_all w ds fps = Inr ws \<Longrightarrow>
     length ws = length fps \<and> (\<forall>k < length fps. load_audio w ds (fps ! k) = Inr (ws ! k))"
proof (induction fps arbitrary: ws)
  case Nil
  then show ?case by simp
next
  case (Cons fp fps)
  from Cons.prems obtain a rest where a: "load_audio w ds fp = Inr a"
    and rest: "load_all w ds fps = Inr rest" and ws: "ws = a # rest"
    by (auto split: sum.splits)
  from Cons.IH [OF rest] a ws show ?case
    by (auto simp: nth_Cons split: nat.splits)
qed

lemma unaligned_getitem_Inr:
  assumes "unaligned_getitem w ds g index = Inr ((mix, target), g')"
  obtains input_tuple stems where "random_product (sources ds) g = Inr (input_tuple, g')"
    and "load_all w ds input_tuple = Inr stems" and "torch_stack stems = Inr stems"
    and "stems \<noteq> []" and "mix = stems_sum stems" and "target = last stems"
proof -
  from assms obtain input_tuple sample_sources stems fp
    where rp: "random_product (sources ds) g = Inr (input_tuple, g')"
      and la: "load_all w ds input_tuple = Inr sample_sources"
      and st: "torch_stack sample_sources = Inr stems"
      and fp: "py_getitem input_tuple (- 1) = Inr fp"
      and tg: "load_audio w ds fp = Inr target"
      and mix: "mix = stems_sum stems"
    by (auto simp: unaligned_getitem_def split: sum.splits prod.splits)
  from st obtain t rest where eq: "sample_sources = t # rest" "stems = t # rest"
    by (rule torch_stack_Inr)
  from py_getitem_last [OF fp] have ne: "input_tuple \<noteq> []" and l: "fp = last input_tuple"
    by simp_all
  from load_all_Inr [OF la] have len: "length sample_sources = length input_tuple"
    and nth: "\<forall>k < length input_tuple. load_audio w ds (input_tuple ! k) = Inr (sample_sources ! k)"
    by simp_all
  from ne have k: "length input_tuple - 1 < length input_tuple" by simp
  from nth k have "load_audio w ds (input_tuple ! (length input_tuple - 1))
      = Inr (sample_sources ! (length input_tuple - 1))"
    by blast
  moreover have "input_tuple ! (length input_tuple - 1) = fp"
    using ne l by (simp add: last_conv_nth)
  moreover have "sample_sources ! (length input_tuple - 1) = last stems"
    using eq len last_conv_nth [of sample_sources] by simp
  ultimately have "load_audio w ds fp = Inr (last stems)"
    by simp
  with tg have "target = last stems" by simp
  with rp la st mix eq that show ?thesis by simp
qed

subsection \<open>Retries and the MixedSources loop\<close>

lemma aligned_getitem_Inr:
  "aligned_getitem depth w ds g index = Inr (example, g') \<Longrightarrow>
     \<exists>g0 index0. aligned_attempt w ds g0 index0 = Done example g'"
proof (induction depth arbitrary: g index)
  case 0
  then show ?case by simp
next
  case (Suc depth)
  show ?case
  proof (cases "aligned_attempt w ds g index")
    case (Raise e)
    with Suc.prems show ?thesis by simp
  next
    case (Retry g1 index1)
    with Suc.prems have "aligned_getitem depth w ds g1 index1 = Inr (example, g')" by simp
    then show ?thesis by (rule Suc.IH)
  next
    case (Done r g1)
    with Suc.prems show ?thesis by auto
  qed
qed

lemma mixed_getitem_Inr:
  "mixed_getitem depth w ds g index = Inr (example, g') \<Longrightarrow>
     \<exists>g0 index0. mixed_attempt w ds g0 index0 = Done example g'"
proof (induction depth arbitrary: g index)
  case 0
  then show ?case by simp
next
  case (Suc depth)
  show ?case
  proof (cases "mixed_attempt w ds g index")
    case (Raise e)
    with Suc.prems show ?thesis by simp
  next
    case (Retry g1 index1)
    with Suc.prems have "mixed_getitem depth w ds g1 index1 = Inr (example, g')" by simp
    then show ?thesis by (rule Suc.IH)
  next
    case (Done r g1)
    with Suc.prems show ?thesis by auto
  qed
qed

lemma mixed_sources_Done:
  "mixed_sources w ds srcs acc g index = Done stems g' \<Longrightarrow>
     \<exists>new. stems = acc @ new \<and> length new = length srcs \<and>
       (\<forall>s \<in> set new. \<exists>source g0 g1. mixed_source w ds source g0 index = Done s g1)"
proof (induction srcs arbitrary: acc g)
  case Nil
  then show ?case by simp
next
  case (Cons source rest)
  from Cons.prems obtain X g1 where step: "mixed_source w ds source g index = Done X g1"
    and more: "mixed_sources w ds rest (acc @ [X]) g1 index = Done stems g'"
    by (auto split: attempt.splits)
  from Cons.IH [OF more] obtain new where new: "stems = (acc @ [X]) @ new"
    "length new = length rest"
    "\<forall>s \<in> set new. \<exists>source g0 g1. mixed_source w ds source g0 index = Done s g1"
    by blast
  have "\<forall>s \<in> set (X # new). \<exists>source g0 g1. mixed_source w ds source g0 index = Done s g1"
    using step new(3) by auto
  with new(1,2) show ?case
    by (intro exI [of _ "X # new"]) simp
qed

lemma mixed_attempt_Done:
  assumes "mixed_attempt w ds g index = Done (x, y) g'"
  obtains stems where "mixed_sources w ds (interferers ds @ [target_file ds]) [] g index = Done stems g'"
    and "torch_stack stems = Inr stems" and "x = stems_sum stems" and "y = last stems"
    and "stems \<noteq> []"
proof -
  from assms obtain audio_sources stems
    where ms: "mixed_sources w ds (interferers ds @ [target_file ds]) [] g index = Done audio_sources g'"
      and st: "torch_stack audio_sources = Inr stems"
      and y: "py_getitem stems (- 1) = Inr y" and x: "x = stems_sum stems"
    by (auto simp: mixed_attempt_def split: attempt.splits sum.splits)
  from st have "stems = audio_sources" by (rule torch_stack_Inr) simp
  with ms st x py_getitem_last [OF y] that show ?thesis by simp
qed

subsection \<open>Shapes of the returned pair, and the MUSDB training loop\<close>

lemma unaligned_equal_shape:
  assumes "unaligned_getitem w ds g index = Inr ((mix, target), g')"
  shows "shape mix = shape target"
proof -
  from assms obtain input_tuple stems where st: "torch_stack stems = Inr stems"
    and ne: "stems \<noteq> []" and mix: "mix = stems_sum stems" and tg: "target = last stems"
    by (rule unaligned_getitem_Inr)
  from ne tg have "target \<in> set stems" by simp
  with st have "map length (stems_sum stems) = map length target"
    by (rule lengths_stems_sum)
  then have "shape (stems_sum stems) = shape target" by (rule shape_of_lengths)
  with mix show ?thesis by simp
qed

lemma mixed_equal_shape:
  assumes "mixed_getitem depth w ds g index = Inr ((x, y), g')"
  shows "shape x = shape y"
proof -
  from mixed_getitem_Inr [OF assms] obtain g0 index0
    where "mixed_attempt w ds g0 index0 = Done (x, y) g'" by blast
  then obtain stems where st: "torch_stack stems = Inr stems"
    and x: "x = stems_sum stems" and y: "y = last stems" and ne: "stems \<noteq> []"
    by (rule mixed_attempt_Done)
  from ne y have "y \<in> set stems" by simp
  with st have "map length (stems_sum stems) = map length y"
    by (rule lengths_stems_sum)
  then have "shape (stems_sum stems) = shape y" by (rule shape_of_lengths)
  with x show ?thesis by simp
qed

text \<open>The training loop of MUSDBDataset appends one stem per source.\<close>

lemma musdb_train_loop_length:
  "musdb_train_loop ds es pos ts ti acc g = Inr (ti', stems, ts', g') \<Longrightarrow>
     length stems = length acc + length es"
proof (induction es arbitrary: pos ts ti acc g)
  case Nil
  then show ?case by simp
next
  case (Cons e es)
  obtain k source where e: "e = (k, source)" by (cases e)
  from Cons.prems e obtain pos1 ts1 ti1 audio g1
    where "musdb_train_loop ds es pos1 ts1 ti1 (acc @ [audio]) g1 = Inr (ti', stems, ts', g')"
    by (auto split: sum.splits)
  from Cons.IH [OF this] show ?case by simp
qed

lemma musdb_train_loop_target:
  "musdb_train_loop ds es pos ts ti acc g = Inr (ti', stems, ts', g') \<Longrightarrow>
     ti' = ti \<or> (\<exists>k. ti' = Some k \<and> (k, mus_target ds) \<in> set es)"
proof (induction es arbitrary: pos ts ti acc g)
  case Nil
  then show ?case by simp
next
  case (Cons e es)
  obtain k source where e: "e = (k, source)" by (cases e)
  from Cons.prems e obtain pos1 ts1 audio g1
    where "musdb_train_loop ds es pos1 ts1 (if source = mus_target ds then Some k else ti)
             (acc @ [audio]) g1 = Inr (ti', stems, ts', g')"
    by (auto split: sum.splits)
  from Cons.IH [OF this] e show ?case by (auto split: if_splits)
qed

lemma list_index_less: "list_index xs v = Inr k \<Longrightarrow> k < length xs \<and> xs ! k = v"
  by (induction xs arbitrary: k) (auto split: if_splits sum.splits)

subsection \<open>MUSDBDataset in the training split\<close>

lemma musdb_getitem_train_Inr:
  assumes "musdb_getitem ds g index = Inr ((x, y), ts', g')" and "mus_split ds = ''train''"
  obtains pos target_ind stems where
    "musdb_train_loop ds (enumerate 0 (setup_sources ds)) pos (mus_tracks ds) None [] g
       = Inr (target_ind, stems, ts', g')"
    and "torch_stack stems = Inr stems" and "x = stems_sum stems"
    and "length stems = length (setup_sources ds)"
    and "(\<exists>k. target_ind = Some k \<and> k < length stems \<and> setup_sources ds ! k = mus_target ds
            \<and> y = stems ! k)
         \<or> (target_ind = None \<and>
             (\<exists>vocind. list_index (setup_sources ds) ''vocals'' = Inr vocind \<and>
                  vocind < length stems \<and> y = wave_sub x (stems ! vocind)))"
proof -
  from assms obtain pos target_ind audio_sources stems
    where loop: "musdb_train_loop ds (enumerate 0 (setup_sources ds)) pos (mus_tracks ds) None [] g
                   = Inr (target_ind, audio_sources, ts', g')"
      and st: "torch_stack audio_sources = Inr stems"
      and x: "x = stems_sum stems"
      and y: "(\<exists>k. target_ind = Some k \<and> y = stems ! k)
              \<or> (target_ind = None \<and>
                  (\<exists>vocind. list_index (setup_sources ds) ''vocals'' = Inr vocind \<and>
                     y = wave_sub x (stems ! vocind)))"
    unfolding musdb_getitem_def
    by (auto split: if_splits sum.splits prod.splits option.splits dest: py_getitem_nat)
  from st have eq: "stems = audio_sources" by (rule torch_stack_Inr) simp
  from musdb_train_loop_length [OF loop] eq
  have len: "length stems = length (setup_sources ds)" by simp
  from y show ?thesis
  proof
    assume "\<exists>k. target_ind = Some k \<and> y = stems ! k"
    then obtain k where Some: "target_ind = Some k" and yy: "y = stems ! k" by blast
    from musdb_train_loop_target [OF loop] Some
    have "(k, mus_target ds) \<in> set (enumerate 0 (setup_sources ds))" by simp
    then have "k < length (setup_sources ds) \<and> setup_sources ds ! k = mus_target ds"
      by (simp add: in_set_enumerate_eq)
    with that [OF _ _ x len] loop st eq Some yy len show ?thesis by auto
  next
    assume "target_ind = None \<and>
        (\<exists>vocind. list_index (setup_sources ds) ''vocals'' = Inr vocind \<and>
           y = wave_sub x (stems ! vocind))"
    then obtain vocind where None: "target_ind = None"
      and v: "list_index (setup_sources ds) ''vocals'' = Inr vocind"
      and yy: "y = wave_sub x (stems ! vocind)" by blast
    from list_index_less [OF v] len have "vocind < length stems" by simp
    with that [OF _ _ x len] loop st eq None v yy show ?thesis by blast
  qed
qed

lemma musdb_train_equal_shape:
  assumes "musdb_getitem ds g index = Inr ((x, y), ts', g')" and "mus_split ds = ''train''"
  shows "shape x = shape y"
proof -
  from assms obtain pos target_ind stems where
    st: "torch_stack stems = Inr stems" and x: "x = stems_sum stems"
    and y: "(\<exists>k. target_ind = Some k \<and> k < length stems \<and> setup_sources ds ! k = mus_target ds
            \<and> y = stems ! k)
         \<or> (target_ind = None \<and>
             (\<exists>vocind. list_index (setup_sources ds) ''vocals'' = Inr vocind \<and>
                  vocind < length stems \<and> y = wave_sub x (stems ! vocind)))"
    by (rule musdb_getitem_train_Inr)
  from y show ?thesis
  proof
    assume "\<exists>k. target_ind = Some k \<and> k < length stems \<and> setup_sources ds ! k = mus_target ds
            \<and> y = stems ! k"
    then obtain k where "k < length stems" "y = stems ! k" by blast
    then have "y \<in> set stems" by simp
    with st have "map length (stems_sum stems) = map length y" by (rule lengths_stems_sum)
    then have "shape (stems_sum stems) = shape y" by (rule shape_of_lengths)
    with x show ?thesis by simp
  next
    assume "target_ind = None \<and>
             (\<exists>vocind. list_index (setup_sources ds) ''vocals'' = Inr vocind \<and>
                  vocind < length stems \<and> y = wave_sub x (stems ! vocind))"
    then obtain v where v: "v < length stems" and yy: "y = wave_sub x (stems ! v)" by blast
    from v have "stems ! v \<in> set stems" by simp
    with st have "map length (stems_sum stems) = map length (stems ! v)"
      by (rule lengths_stems_sum)
    with x have "map length x = map length (stems ! v)" by simp
    then have "map length (wave_sub x (stems ! v)) = map length x" by (rule lengths_wave_sub)
    then have "shape (wave_sub x (stems ! v)) = shape x" by (rule shape_of_lengths)
    with yy show ?thesis by simp
  qed
qed

subsection \<open>The audio backend\<close>

lemma nb_timesteps_window:
  "nb_timesteps (map (\<lambda>c. take n (drop off c)) d) = min n (nb_timesteps d - off)"
  by (cases d) (simp_all add: nb_timesteps_def min.commute)

lemma audioinfo_Inr:
  assumes "audioinfo w p = Inr i"
  obtains f where "files w p = Some f" and "samplerate i = rate f" and "0 < rate f"
    and "duration i = of_nat (nb_timesteps (data f)) / of_nat (rate f)"
proof (cases "torchaudio_loaded w")
  case True
  with assms obtain f where f: "files w p = Some f" and c: "length (data f) \<noteq> 0"
    and r: "rate f \<noteq> 0"
    and i: "i = \<lparr> samplerate = rate f,
                   samples = int (length (data f) * nb_timesteps (data f) div length (data f)),
                   duration = of_nat (length (data f) * nb_timesteps (data f) div length (data f))
                                / of_nat (rate f) \<rparr>"
    by (auto simp: audioinfo_def torchaudio_info_def Let_def split: option.splits if_splits)
  from c have "length (data f) * nb_timesteps (data f) div length (data f) = nb_timesteps (data f)"
    by simp
  with i have "duration i = of_nat (nb_timesteps (data f)) / of_nat (rate f)"
    and "samplerate i = rate f" by simp_all
  with f r that show ?thesis by simp
next
  case False
  with assms obtain f where f: "files w p = Some f" and r: "rate f \<noteq> 0"
    and i: "samplerate i = rate f"
      "duration i = of_nat (nb_timesteps (data f)) / of_nat (rate f)"
    by (auto simp: audioinfo_def soundfile_info_def Let_def split: option.splits if_splits)
  with that show ?thesis by simp
qed

lemma audioloader_Some:
  assumes "audioloader w p start (Some d) = Inr s" and "d \<noteq> 0"
  obtains f where "files w p = Some f" and "\<not> corrupt f" and "s = window f start d"
proof (cases "torchaudio_loaded w")
  case True
  with assms obtain f where "files w p = Some f" "\<not> corrupt f" "s = window f start d"
    by (auto simp: audioloader_def torchaudio_loader_def torchaudio_info_def read_frames_def
        window_def Let_def split: option.splits if_splits sum.splits)
  with that show ?thesis by simp
next
  case False
  with assms obtain f where "files w p = Some f" "\<not> corrupt f" "s = window f start d"
    by (auto simp: audioloader_def soundfile_loader_def soundfile_info_def read_frames_def
        window_def Let_def split: option.splits if_splits sum.splits)
  with that show ?thesis by simp
qed

lemma nat_py_int: "nat (py_int x) = nat \<lfloor>x\<rfloor>"
  by (auto simp: py_int_def nat_eq_iff2 intro: order_antisym)

lemma window_length: "length (window f start d) = length (data f)"
  by (simp add: window_def)

lemma window_at_most: "nb_timesteps (window f start d) \<le> nat (py_int (d * of_nat (rate f)))"
  by (simp add: window_def nb_timesteps_window)

lemma window_full:
  assumes "0 \<le> start" and "0 \<le> d"
    and "(start + d) * of_nat (rate f) \<le> of_nat (nb_timesteps (data f))"
  shows "nb_timesteps (window f start d) = nat (py_int (d * of_nat (rate f)))"
proof -
  let ?r = "of_nat (rate f) :: rat"
  have a: "0 \<le> start * ?r" and b: "0 \<le> d * ?r" using assms by simp_all
  have "of_int (\<lfloor>start * ?r\<rfloor> + \<lfloor>d * ?r\<rfloor>) \<le> start * ?r + d * ?r"
    by (simp add: add_mono)
  also have "\<dots> = (start + d) * ?r" by (simp add: algebra_simps)
  also have "\<dots> \<le> of_int (int (nb_timesteps (data f)))" using assms(3) by simp
  finally have "\<lfloor>start * ?r\<rfloor> + \<lfloor>d * ?r\<rfloor> \<le> int (nb_timesteps (data f))"
    by (simp only: of_int_le_iff)
  moreover have "0 \<le> \<lfloor>start * ?r\<rfloor>" "0 \<le> \<lfloor>d * ?r\<rfloor>" using a b by simp_all
  ultimately have "nat \<lfloor>d * ?r\<rfloor> \<le> nb_timesteps (data f) - nat \<lfloor>start * ?r\<rfloor>"
    by linarith
  then show ?thesis
    by (simp add: window_def nb_timesteps_window nat_py_int)
qed

lemma random_random_range: "0 \<le> fst (random_random g) \<and> fst (random_random g) < 1"
proof -
  have "shd g mod 2 ^ 53 < 2 ^ 53" by simp
  then have "(of_nat (shd g mod 2 ^ 53) :: rat) < of_nat (2 ^ 53)"
    by (simp only: of_nat_less_iff)
  then show ?thesis by (simp add: random_random_def)
qed

lemma random_uniform_range:
  assumes "0 \<le> b"
  shows "0 \<le> fst (random_uniform 0 b g) \<and> fst (random_uniform 0 b g) \<le> b"
proof -
  from random_random_range [of g] have u: "0 \<le> fst (random_random g)" "fst (random_random g) \<le> 1"
    by simp_all
  from assms u have "b * fst (random_random g) \<le> b * 1" by (intro mult_left_mono) simp_all
  with assms u show ?thesis by (simp add: random_uniform_def)
qed

subsection \<open>One attempt of MixedSources and AlignedSources\<close>

lemma aligned_attempt_Done:
  assumes "aligned_attempt w ds g index = Done (X, Y) g'"
  obtains input_path output_path input_info output_info start
  where "py_getitem (tuple_paths ds) index = Inr (input_path, output_path)"
    and "audioinfo w input_path = Inr input_info"
    and "audioinfo w output_path = Inr output_info"
    and "aligned_start ds input_info output_info g = Inr (Some (start, g'))"
    and "audioloader w input_path start (a_seq_duration ds) = Inr X"
    and "audioloader w output_path start (a_seq_duration ds) = Inr Y"
    and "aligned_short ds input_info output_info X Y = Inr False"
  using assms
  by (auto simp: aligned_attempt_def aligned_load_def
      split: sum.splits option.splits prod.splits if_splits bool.splits)

subsection \<open>Evaluation on the concrete datasets\<close>

lemmas backend_defs = audioinfo_def torchaudio_info_def soundfile_info_def audioloader_def
  torchaudio_loader_def soundfile_loader_def read_frames_def nb_timesteps_def py_int_def
  exists_def

lemmas tensor_defs = torch_stack_def stems_sum_def wave_add_def wave_sub_def py_getitem_def

lemmas random_defs = random_choice_def random_uniform_def random_random_def

lemma aligned_getitem_Done:
  "aligned_attempt w ds g index = Done example g' \<Longrightarrow>
     aligned_getitem (Suc depth) w ds g index = Inr (example, g')"
  by simp

lemma mixed_getitem_Done:
  "mixed_attempt w ds g index = Done example g' \<Longrightarrow>
     mixed_getitem (Suc depth) w ds g index = Inr (example, g')"
  by simp

lemma python_recursion_limit: "(1000::nat) = Suc 999"
  by simp

lemma attempt_aligned_valid:
  "aligned_attempt studio aligned_valid g 0 = Done ([[1, 2]], [[5, 6], [9, 10]]) g"
  by (simp add: aligned_attempt_def aligned_load_def aligned_start_def aligned_short_def
      py_getitem_def aligned_valid_def studio_def backend_defs)

lemma getitem_aligned_valid:
  "aligned_getitem 1000 studio aligned_valid g 0 = Inr (([[1, 2]], [[5, 6], [9, 10]]), g)"
  unfolding python_recursion_limit by (rule aligned_getitem_Done) (rule attempt_aligned_valid)

lemma floor_375_4: "\<lfloor>375 / 4 :: rat\<rfloor> = 93"
  by (rule floor_unique) simp_all

lemma attempt_aligned_8k:
  "aligned_attempt studio8k aligned_8k g 0 = Done ([replicate 93 0], [replicate 93 0]) g"
  by (simp add: aligned_attempt_def aligned_load_def aligned_start_def aligned_short_def
      py_getitem_def aligned_8k_def studio8k_def backend_defs floor_375_4)

lemma attempt_mixed_train:
  "mixed_attempt studio mixed_train (0 ## 0 ## 0 ## 2 ^ 52 ## sconst 0) 0
     = Done ([[21, 32]], [[20, 30]]) (sconst 0)"
  by (simp add: mixed_attempt_def mixed_source_def mixed_track_dir_def joinpath_def
      random_defs tensor_defs is_RuntimeError_def mixed_train_def studio_def backend_defs)

lemma getitem_unaligned_pair:
  "unaligned_getitem studio unaligned_pair g index = Inr (([[11, 22]], [[10, 20]]), stl (stl g))"
  by (simp add: unaligned_getitem_def load_audio_def random_defs tensor_defs
      unaligned_pair_def studio_def backend_defs)

lemma getitem_musdb_train:
  "musdb_getitem musdb_train (sconst 0) 0
     = Inr (([[11, 22]], [[10, 20]]),
            [song\<lparr>chunk_start := 0, chunk_duration := Some 2\<rparr>], sconst 0)"
  by (simp add: musdb_getitem_def musdb_source_def stem_audio_def random_defs tensor_defs
      musdb_train_def song_def py_int_def enumerate_eq_zip)

lemma getitem_musdb_valid:
  "musdb_getitem musdb_valid g 0
     = Inr (([[11, 22, 33, 44]], [[1, 2, 3, 4]]), [song], g)"
  by (simp add: musdb_getitem_def stem_audio_def tensor_defs
      musdb_valid_def song_def py_int_def)

subsection \<open>Exact excerpt lengths\<close>

lemma aligned_exact:
  assumes "aligned_getitem depth w ds g index = Inr ((X, Y), g')"
    and "a_seq_duration ds = Some d" and "0 < d"
  obtains input_path output_path fi fo start where
    "(input_path, output_path) \<in> set (tuple_paths ds)"
    and "files w input_path = Some fi" and "files w output_path = Some fo"
    and "X = window fi start d" and "Y = window fo start d"
    and "nb_timesteps X = nat (py_int (d * of_nat (rate fi)))"
    and "nb_timesteps Y = nat (py_int (d * of_nat (rate fo)))"
proof -
  from aligned_getitem_Inr [OF assms(1)] obtain g0 index0
    where "aligned_attempt w ds g0 index0 = Done (X, Y) g'" by blast
  then obtain ip op ii oi start
    where paths: "py_getitem (tuple_paths ds) index0 = Inr (ip, op)"
      and ii: "audioinfo w ip = Inr ii" and oi: "audioinfo w op = Inr oi"
      and lx: "audioloader w ip start (a_seq_duration ds) = Inr X"
      and ly: "audioloader w op start (a_seq_duration ds) = Inr Y"
      and short: "aligned_short ds ii oi X Y = Inr False"
    by (rule aligned_attempt_Done)
  from assms(3) have d0: "d \<noteq> 0" by simp
  from lx assms(2) have "audioloader w ip start (Some d) = Inr X" by simp
  from this d0 obtain fi where fi: "files w ip = Some fi" and X: "X = window fi start d"
    by (rule audioloader_Some)
  from ly assms(2) have "audioloader w op start (Some d) = Inr Y" by simp
  from this d0 obtain fo where fo: "files w op = Some fo" and Y: "Y = window fo start d"
    by (rule audioloader_Some)
  from ii obtain f where "files w ip = Some f" "samplerate ii = rate f" by (rule audioinfo_Inr)
  with fi have ri: "samplerate ii = rate fi" by simp
  from oi obtain f where "files w op = Some f" "samplerate oi = rate f" by (rule audioinfo_Inr)
  with fo have ro: "samplerate oi = rate fo" by simp
  from short assms(2) ri ro
  have ge: "py_int (d * of_nat (rate fi)) \<le> int (nb_timesteps X)"
    "py_int (d * of_nat (rate fo)) \<le> int (nb_timesteps Y)"
    by (simp_all add: aligned_short_def)
  from X have "nb_timesteps X \<le> nat (py_int (d * of_nat (rate fi)))"
    by (simp add: window_at_most)
  with ge(1) have nx: "nb_timesteps X = nat (py_int (d * of_nat (rate fi)))" by linarith
  from Y have "nb_timesteps Y \<le> nat (py_int (d * of_nat (rate fo)))"
    by (simp add: window_at_most)
  with ge(2) have ny: "nb_timesteps Y = nat (py_int (d * of_nat (rate fo)))" by linarith
  from py_getitem_mem [OF paths] have "(ip, op) \<in> set (tuple_paths ds)" .
  with fi fo X Y nx ny that show ?thesis by blast
qed

subsection \<open>One step of the recursion\<close>

lemma aligned_getitem_Raise:
  "aligned_attempt w ds g index = Raise e \<Longrightarrow> aligned_getitem (Suc depth) w ds g index = Inl e"
  by simp

lemma aligned_getitem_Retry:
  "aligned_attempt w ds g index = Retry g' index' \<Longrightarrow>
     aligned_getitem (Suc depth) w ds g index = aligned_getitem depth w ds g' index'"
  by simp

lemma mixed_getitem_Raise:
  "mixed_attempt w ds g index = Raise e \<Longrightarrow> mixed_getitem (Suc depth) w ds g index = Inl e"
  by simp

lemma mixed_getitem_Retry:
  "mixed_attempt w ds g index = Retry g' index' \<Longrightarrow>
     mixed_getitem (Suc depth) w ds g index = mixed_getitem depth w ds g' index'"
  by simp

subsection \<open>Splits that never ask the generator\<close>

lemma aligned_start_eval:
  "\<not> a_random_excerpt ds \<Longrightarrow> aligned_start ds input_info output_info g = Inr (Some (0, g))"
  by (simp add: aligned_start_def)

text \<open>Outside the training split an attempt of AlignedSources never asks the generator.\<close>

lemma aligned_attempt_eval:
  assumes "\<not> a_random_excerpt ds"
  shows "(aligned_attempt w ds g1 index = Raise e \<longrightarrow> aligned_attempt w ds g2 index = Raise e) \<and>
         (aligned_attempt w ds g1 index = Retry h index' \<longrightarrow>
            h = g1 \<and> aligned_attempt w ds g2 index = Retry g2 index') \<and>
         (aligned_attempt w ds g1 index = Done r h \<longrightarrow>
            h = g1 \<and> aligned_attempt w ds g2 index = Done r g2)"
  using assms
  by (auto simp: aligned_attempt_def aligned_load_def aligned_start_eval
      split: sum.splits prod.splits if_splits bool.splits)

lemma aligned_getitem_eval:
  assumes "\<not> a_random_excerpt ds"
  shows "(aligned_getitem depth w ds g1 index = Inl e \<longrightarrow> aligned_getitem depth w ds g2 index = Inl e) \<and>
         (aligned_getitem depth w ds g1 index = Inr (r, h) \<longrightarrow>
            h = g1 \<and> aligned_getitem depth w ds g2 index = Inr (r, g2))"
proof (induction depth arbitrary: index)
  case 0
  show ?case by simp
next
  case (Suc depth)
  note ev = aligned_attempt_eval [OF assms, where w = w and ?g1.0 = g1 and index = index
      and ?g2.0 = g2]
  show ?case
  proof (cases "aligned_attempt w ds g1 index")
    case (Raise e')
    with ev [where e = e'] have "aligned_attempt w ds g2 index = Raise e'" by blast
    with Raise show ?thesis by simp
  next
    case (Retry h' index')
    with ev [where h = h' and index' = index'] have "h' = g1" "aligned_attempt w ds g2 index = Retry g2 index'"
      by blast+
    with Retry Suc.IH [of index'] show ?thesis by simp
  next
    case (Done r' h')
    with ev [where r = r' and h = h'] have "h' = g1" "aligned_attempt w ds g2 index = Done r' g2"
      by blast+
    with Done show ?thesis by auto
  qed
qed

lemma aligned_eval_deterministic:
  assumes "\<not> a_random_excerpt ds"
  shows "map_sum id fst (aligned_getitem depth w ds g1 index)
           = map_sum id fst (aligned_getitem depth w ds g2 index)"
proof (cases "aligned_getitem depth w ds g1 index")
  case (Inl e)
  with aligned_getitem_eval [OF assms, where depth = depth and w = w and ?g1.0 = g1
      and index = index and e = e and ?g2.0 = g2] show ?thesis by simp
next
  case (Inr r)
  obtain ex h where "r = (ex, h)" by (cases r)
  with Inr aligned_getitem_eval [OF assms, where depth = depth and w = w and ?g1.0 = g1
      and index = index and ?g2.0 = g2 and r = ex and h = h] show ?thesis by simp
qed

lemma aligned_eval_start:
  assumes "\<not> a_random_excerpt ds" and "aligned_getitem depth w ds g index = Inr ((X, Y), g')"
  shows "g' = g \<and> (\<exists>input_path output_path.
           (input_path, output_path) \<in> set (tuple_paths ds) \<and>
           audioloader w input_path 0 (a_seq_duration ds) = Inr X \<and>
           audioloader w output_path 0 (a_seq_duration ds) = Inr Y)"
proof -
  from aligned_getitem_eval [OF assms(1), where depth = depth and w = w and ?g1.0 = g
      and index = index and ?g2.0 = g and r = "(X, Y)" and h = g'] assms(2)
  have g: "g' = g" by simp
  from aligned_getitem_Inr [OF assms(2)] obtain g0 index0
    where "aligned_attempt w ds g0 index0 = Done (X, Y) g'" by blast
  then obtain ip op ii oi start
    where paths: "py_getitem (tuple_paths ds) index0 = Inr (ip, op)"
      and s: "aligned_start ds ii oi g0 = Inr (Some (start, g'))"
      and lx: "audioloader w ip start (a_seq_duration ds) = Inr X"
      and ly: "audioloader w op start (a_seq_duration ds) = Inr Y"
    by (rule aligned_attempt_Done)
  from s assms(1) have "start = 0" by (simp add: aligned_start_eval)
  with lx ly py_getitem_mem [OF paths] g show ?thesis by blast
qed

lemma musdb_eval_deterministic:
  assumes "mus_split ds \<noteq> ''train''"
  shows "map_sum id fst (musdb_getitem ds g1 index) = map_sum id fst (musdb_getitem ds g2 index)"
  using assms by (simp add: musdb_getitem_def split: sum.splits option.splits)

subsection \<open>Failures and retries\<close>

lemma audioloader_corrupt:
  assumes "audioinfo w p = Inr i" and "files w p = Some f" and "corrupt f"
  shows "audioloader w p start dur = Inl RuntimeError"
  using assms
  by (auto simp: audioinfo_def audioloader_def torchaudio_loader_def soundfile_loader_def
      read_frames_def Let_def split: option.splits if_splits sum.splits)

lemma audioloader_sound:
  assumes "audioinfo w p = Inr i" and "files w p = Some f" and "\<not> corrupt f"
  shows "\<exists>X. audioloader w p start dur = Inr X"
  using assms
  by (auto simp: audioinfo_def audioloader_def torchaudio_loader_def soundfile_loader_def
      read_frames_def Let_def split: option.splits if_splits sum.splits)

lemma aligned_short_file_retries:
  assumes "py_getitem (tuple_paths ds) index = Inr (input_path, output_path)"
    and "audioinfo w input_path = Inr input_info" and "audioinfo w output_path = Inr output_info"
    and "a_seq_duration ds = Some d" and "a_random_excerpt ds"
    and "min (duration input_info) (duration output_info) < d"
  shows "aligned_attempt w ds g index = Retry g (neighbour index)"
  using assms by (simp add: aligned_attempt_def aligned_start_def Let_def)

lemma aligned_corrupt_file_retries:
  assumes "py_getitem (tuple_paths ds) index = Inr (input_path, output_path)"
    and "audioinfo w input_path = Inr input_info" and "audioinfo w output_path = Inr output_info"
    and "aligned_start ds input_info output_info g = Inr (Some (start, g1))"
    and "files w input_path = Some fi" and "files w output_path = Some fo"
    and "corrupt fi \<or> corrupt fo"
  shows "aligned_attempt w ds g index = Retry g1 (neighbour index)"
proof (cases "corrupt fi")
  case True
  with assms(2,5) have "audioloader w input_path start (a_seq_duration ds) = Inl RuntimeError"
    by (intro audioloader_corrupt)
  with assms(1-4) show ?thesis
    by (simp add: aligned_attempt_def aligned_load_def is_RuntimeError_def)
next
  case False
  with assms(2,5) obtain X where "audioloader w input_path start (a_seq_duration ds) = Inr X"
    using audioloader_sound by blast
  moreover from False assms(7) have "corrupt fo" by simp
  with assms(3,6) have "audioloader w output_path start (a_seq_duration ds) = Inl RuntimeError"
    by (intro audioloader_corrupt)
  ultimately show ?thesis using assms(1-4)
    by (simp add: aligned_attempt_def aligned_load_def is_RuntimeError_def)
qed

lemma aligned_short_excerpt_retries:
  assumes "py_getitem (tuple_paths ds) index = Inr (input_path, output_path)"
    and "audioinfo w input_path = Inr input_info" and "audioinfo w output_path = Inr output_info"
    and "aligned_start ds input_info output_info g = Inr (Some (start, g1))"
    and "audioloader w input_path start (a_seq_duration ds) = Inr X"
    and "audioloader w output_path start (a_seq_duration ds) = Inr Y"
    and "a_seq_duration ds = Some d"
    and "int (nb_timesteps X) < py_int (d * of_nat (samplerate input_info))
         \<or> int (nb_timesteps Y) < py_int (d * of_nat (samplerate output_info))"
  shows "aligned_attempt w ds g index = Retry g1 (neighbour index)"
  using assms by (auto simp: aligned_attempt_def aligned_load_def aligned_short_def)

lemma mixed_sources_append:
  "mixed_sources w ds (pre @ post) acc g index =
     (case mixed_sources w ds pre acc g index of
        Raise e \<Rightarrow> Raise e
      | Retry g' index' \<Rightarrow> Retry g' index'
      | Done acc' g' \<Rightarrow> mixed_sources w ds post acc' g' index)"
  by (induction pre arbitrary: acc g) (auto split: attempt.splits)

lemma mixed_failing_source_retries:
  assumes "mixed_track_dir ds g index = Inr (track_dir, g1)"
    and "files w (joinpath track_dir source) = Some f"
    and "audioinfo w (joinpath track_dir source) = Inr input_info"
    and "m_seq_duration ds = Some d"
    and "duration input_info < d \<or> corrupt f"
  shows "\<exists>g2. mixed_source w ds source g index = Retry g2 (neighbour index)"
proof (cases "duration input_info < d")
  case True
  with assms(1-4) show ?thesis by (simp add: mixed_source_def exists_def)
next
  case False
  with assms(5) have "corrupt f" by simp
  with assms(2,3)
  have "\<And>start. audioloader w (joinpath track_dir source) start (Some d) = Inl RuntimeError"
    by (intro audioloader_corrupt)
  with False assms(1-4) show ?thesis
    by (simp add: mixed_source_def exists_def is_RuntimeError_def split: prod.splits)
qed

lemma mixed_failing_source_restarts:
  assumes "interferers ds @ [target_file ds] = pre @ source # post"
    and "mixed_sources w ds pre [] g index = Done acc g0"
    and "mixed_source w ds source g0 index = Retry g2 index'"
  shows "mixed_getitem (Suc depth) w ds g index = mixed_getitem depth w ds g2 index'"
proof -
  have "mixed_sources w ds (pre @ source # post) [] g index = Retry g2 index'"
    using assms(2,3) by (simp add: mixed_sources_append)
  with assms(1) have "mixed_attempt w ds g index = Retry g2 index'"
    by (simp add: mixed_attempt_def)
  then show ?thesis by (rule mixed_getitem_Retry)
qed

subsection \<open>Stems by position\<close>

text \<open>The stems of a finished loop, position by position.\<close>

lemma mixed_sources_Done_nth:
  "mixed_sources w ds srcs acc g index = Done stems g' \<Longrightarrow>
     length stems = length acc + length srcs \<and>
     (\<forall>k < length srcs. \<exists>g0 g1.
         mixed_source w ds (srcs ! k) g0 index = Done (stems ! (length acc + k)) g1)"
proof (induction srcs arbitrary: acc g)
  case Nil
  then show ?case by simp
next
  case (Cons source rest)
  from Cons.prems obtain X g1 where step: "mixed_source w ds source g index = Done X g1"
    and more: "mixed_sources w ds rest (acc @ [X]) g1 index = Done stems g'"
    by (auto split: attempt.splits)
  from Cons.IH [OF more] have len: "length stems = length (acc @ [X]) + length rest"
    and nth: "\<forall>k < length rest. \<exists>g0 g1.
         mixed_source w ds (rest ! k) g0 index = Done (stems ! (length (acc @ [X]) + k)) g1"
    by blast+
  from mixed_sources_Done [OF more] obtain new where "stems = (acc @ [X]) @ new" by blast
  then have first: "stems ! length acc = X" by (simp add: nth_append)
  have "\<forall>k < length (source # rest). \<exists>g0 g1.
         mixed_source w ds ((source # rest) ! k) g0 index = Done (stems ! (length acc + k)) g1"
  proof (intro allI impI)
    fix k assume k: "k < length (source # rest)"
    show "\<exists>g0 g1. mixed_source w ds ((source # rest) ! k) g0 index
            = Done (stems ! (length acc + k)) g1"
    proof (cases k)
      case 0
      with step first show ?thesis by auto
    next
      case (Suc j)
      with k have "j < length rest" by simp
      with nth obtain g0 g1' where
        "mixed_source w ds (rest ! j) g0 index = Done (stems ! (length (acc @ [X]) + j)) g1'"
        by blast
      with Suc show ?thesis by auto
    qed
  qed
  with len show ?case by simp
qed

lemma mixed_track_dir_mem:
  "mixed_track_dir ds g index = Inr (track_dir, g1) \<Longrightarrow> track_dir \<in> set (tracks ds)"
  by (auto simp: mixed_track_dir_def random_choice_def split: if_splits sum.splits
      dest: py_getitem_mem)

lemma mixed_target_stem:
  assumes "mixed_getitem depth w ds g index = Inr ((x, y), g')"
  obtains g0 index0 stems where
    "mixed_sources w ds (interferers ds @ [target_file ds]) [] g0 index0 = Done stems g'"
    and "torch_stack stems = Inr stems" and "x = stems_sum stems" and "y = last stems"
    and "length stems = length (interferers ds) + 1"
    and "\<forall>k < length stems. \<exists>g1 g2.
           mixed_source w ds ((interferers ds @ [target_file ds]) ! k) g1 index0
             = Done (stems ! k) g2"
    and "\<exists>g1 g2. mixed_source w ds (target_file ds) g1 index0 = Done y g2"
proof -
  from mixed_getitem_Inr [OF assms] obtain g0 index0
    where "mixed_attempt w ds g0 index0 = Done (x, y) g'" by blast
  then obtain stems
    where ms: "mixed_sources w ds (interferers ds @ [target_file ds]) [] g0 index0 = Done stems g'"
      and st: "torch_stack stems = Inr stems" and x: "x = stems_sum stems"
      and y: "y = last stems" and ne: "stems \<noteq> []"
    by (rule mixed_attempt_Done)
  from mixed_sources_Done_nth [OF ms]
  have len: "length stems = length (interferers ds) + 1"
    and nth: "\<forall>k < length (interferers ds @ [target_file ds]). \<exists>g1 g2.
         mixed_source w ds ((interferers ds @ [target_file ds]) ! k) g1 index0
           = Done (stems ! k) g2"
    by simp_all
  from nth len have all: "\<forall>k < length stems. \<exists>g1 g2.
           mixed_source w ds ((interferers ds @ [target_file ds]) ! k) g1 index0
             = Done (stems ! k) g2"
    by simp
  have "length (interferers ds) < length stems" using len by simp
  with all obtain g1 g2 where
    "mixed_source w ds ((interferers ds @ [target_file ds]) ! length (interferers ds)) g1 index0
       = Done (stems ! length (interferers ds)) g2"
    by blast
  moreover have "stems ! length (interferers ds) = last stems"
    using ne len by (simp add: last_conv_nth)
  ultimately have "\<exists>g1 g2. mixed_source w ds (target_file ds) g1 index0 = Done y g2"
    using y by auto
  with ms st x y len all that show ?thesis by blast
qed

subsection \<open>Choices, first positions and the stems of MUSDBDataset\<close>

lemma random_choice_mem: "random_choice seq g = Inr (x, g') \<Longrightarrow> x \<in> set seq"
  by (auto simp: random_choice_def split: if_splits)

lemma random_product_Inr:
  "random_product pools g = Inr (xs, g') \<Longrightarrow>
     length xs = length pools \<and> (\<forall>k < length pools. xs ! k \<in> set (pools ! k))"
proof (induction pools arbitrary: xs g)
  case Nil
  then show ?case by simp
next
  case (Cons pool pools)
  from Cons.prems obtain x g1 rest where c: "random_choice pool g = Inr (x, g1)"
    and r: "random_product pools g1 = Inr (rest, g')" and xs: "xs = x # rest"
    by (auto split: sum.splits)
  from Cons.IH [OF r] random_choice_mem [OF c] xs show ?case
    by (auto simp: nth_Cons split: nat.splits)
qed




subsection \<open>Loads behind the returned waveforms\<close>

lemma mixed_source_Done_load:
  assumes "mixed_source w ds source g index = Done s g'"
  obtains track_dir start where "track_dir \<in> set (tracks ds)"
    and "audioloader w (joinpath track_dir source) start (m_seq_duration ds) = Inr s"
proof -
  from assms obtain track_dir g1 start d
    where td: "mixed_track_dir ds g index = Inr (track_dir, g1)"
      and d: "m_seq_duration ds = Some d"
      and l: "audioloader w (joinpath track_dir source) start (Some d) = Inr s"
    by (auto simp: mixed_source_def split: sum.splits if_splits prod.splits option.splits)
  from mixed_track_dir_mem [OF td] l d that show ?thesis by simp
qed

text \<open>
  What AlignedSources returns is what the two loads delivered, from one start, with the
  length that line 338 asks for.
\<close>

lemma aligned_loads_exact:
  assumes "aligned_getitem depth w ds g index = Inr ((X, Y), g')"
    and "a_seq_duration ds = Some d" and "0 < d"
  obtains input_path output_path fi fo start where
    "(input_path, output_path) \<in> set (tuple_paths ds)"
    and "files w input_path = Some fi" and "files w output_path = Some fo"
    and "audioloader w input_path start (Some d) = Inr X"
    and "audioloader w output_path start (Some d) = Inr Y"
    and "nb_timesteps X = nat \<lfloor>d * of_nat (rate fi)\<rfloor>"
    and "nb_timesteps Y = nat \<lfloor>d * of_nat (rate fo)\<rfloor>"
proof -
  from aligned_getitem_Inr [OF assms(1)] obtain g0 index0
    where "aligned_attempt w ds g0 index0 = Done (X, Y) g'" by blast
  then obtain ip op ii oi start
    where paths: "py_getitem (tuple_paths ds) index0 = Inr (ip, op)"
      and ii: "audioinfo w ip = Inr ii" and oi: "audioinfo w op = Inr oi"
      and lx: "audioloader w ip start (a_seq_duration ds) = Inr X"
      and ly: "audioloader w op start (a_seq_duration ds) = Inr Y"
      and short: "aligned_short ds ii oi X Y = Inr False"
    by (rule aligned_attempt_Done)
  from assms(3) have d0: "d \<noteq> 0" by simp
  from lx assms(2) have lx': "audioloader w ip start (Some d) = Inr X" by simp
  from this d0 obtain fi where fi: "files w ip = Some fi" and X: "X = window fi start d"
    by (rule audioloader_Some)
  from ly assms(2) have ly': "audioloader w op start (Some d) = Inr Y" by simp
  from this d0 obtain fo where fo: "files w op = Some fo" and Y: "Y = window fo start d"
    by (rule audioloader_Some)
  from ii obtain f where "files w ip = Some f" "samplerate ii = rate f" by (rule audioinfo_Inr)
  with fi have ri: "samplerate ii = rate fi" by simp
  from oi obtain f where "files w op = Some f" "samplerate oi = rate f" by (rule audioinfo_Inr)
  with fo have ro: "samplerate oi = rate fo" by simp
  from short assms(2) ri ro
  have ge: "py_int (d * of_nat (rate fi)) \<le> int (nb_timesteps X)"
    "py_int (d * of_nat (rate fo)) \<le> int (nb_timesteps Y)"
    by (simp_all add: aligned_short_def)
  from X have "nb_timesteps X \<le> nat (py_int (d * of_nat (rate fi)))"
    by (simp add: window_at_most)
  with ge(1) have "nb_timesteps X = nat (py_int (d * of_nat (rate fi)))" by linarith
  then have nx: "nb_timesteps X = nat \<lfloor>d * of_nat (rate fi)\<rfloor>" by (simp add: nat_py_int)
  from Y have "nb_timesteps Y \<le> nat (py_int (d * of_nat (rate fo)))"
    by (simp add: window_at_most)
  with ge(2) have "nb_timesteps Y = nat (py_int (d * of_nat (rate fo)))" by linarith
  then have ny: "nb_timesteps Y = nat \<lfloor>d * of_nat (rate fo)\<rfloor>" by (simp add: nat_py_int)
  from py_getitem_mem [OF paths] have "(ip, op) \<in> set (tuple_paths ds)" .
  with fi fo lx' ly' nx ny that show ?thesis by blast
qed

text \<open>
  A stem of MixedSources is what the loader delivered for a window that lies inside the
  probed duration of its file; nothing is checked after the load.
\<close>

lemma mixed_source_Done_probe:
  assumes "mixed_source w ds source g index = Done s g'" and "m_seq_duration ds = Some d"
    and "0 < d"
  obtains track_dir f input_info start where "track_dir \<in> set (tracks ds)"
    and "files w (joinpath track_dir source) = Some f"
    and "audioinfo w (joinpath track_dir source) = Inr input_info"
    and "d \<le> duration input_info" and "0 \<le> start" and "start \<le> duration input_info - d"
    and "audioloader w (joinpath track_dir source) start (Some d) = Inr s"
    and "nb_timesteps s \<le> nat \<lfloor>d * of_nat (rate f)\<rfloor>"
proof -
  from assms(1,2) obtain track_dir g1 input_info start
    where td: "mixed_track_dir ds g index = Inr (track_dir, g1)"
      and i: "audioinfo w (joinpath track_dir source) = Inr input_info"
      and long: "\<not> duration input_info < d"
      and u: "random_uniform 0 (duration input_info - d) g1 = (start, g')"
      and l: "audioloader w (joinpath track_dir source) start (Some d) = Inr s"
    by (auto simp: mixed_source_def split: sum.splits if_splits prod.splits)
  from u have start: "start = fst (random_uniform 0 (duration input_info - d) g1)" by simp
  from long have b: "0 \<le> duration input_info - d" by simp
  from random_uniform_range [OF b, of g1] start
  have st: "0 \<le> start" "start \<le> duration input_info - d" by simp_all
  from assms(3) have "d \<noteq> 0" by simp
  with l obtain f where f: "files w (joinpath track_dir source) = Some f"
    and s: "s = window f start d"
    by (rule audioloader_Some)
  from s have n: "nb_timesteps s \<le> nat \<lfloor>d * of_nat (rate f)\<rfloor>"
    using window_at_most [of f start d] by (simp add: nat_py_int)
  from long have "d \<le> duration input_info" by simp
  with mixed_track_dir_mem [OF td] f i st l n that show ?thesis by blast
qed

subsection \<open>More evaluations on the concrete datasets\<close>


text \<open>
  Outside the training split a missing stem file sends \<^verbatim>\<open>__getitem__\<close> back to the
  same index with the same generator, whatever the depth that is left.
\<close>

lemma attempt_mixed_missing: "mixed_attempt studio mixed_missing g 0 = Retry g 0"
  by (simp add: mixed_attempt_def mixed_source_def mixed_track_dir_def joinpath_def
      py_getitem_def mixed_missing_def studio_def exists_def)

lemma getitem_mixed_missing: "mixed_getitem depth studio mixed_missing g 0 = Inl RecursionError"
proof (induction depth)
  case 0
  show ?case by simp
next
  case (Suc depth)
  have "mixed_getitem (Suc depth) studio mixed_missing g 0
      = mixed_getitem depth studio mixed_missing g 0"
    by (rule mixed_getitem_Retry) (rule attempt_mixed_missing)
  with Suc show ?case by simp
qed

lemma attempt_mixed_missing_neighbour:
  "mixed_attempt studio mixed_missing (sconst 0) 1 = Done ([[11, 22]], [[10, 20]]) (sconst 0)"
  by (simp add: mixed_attempt_def mixed_source_def mixed_track_dir_def joinpath_def
      random_defs tensor_defs is_RuntimeError_def mixed_missing_def studio_def backend_defs)

lemma attempt_mixed_valid:
  "mixed_attempt studio mixed_valid (sconst 0) 0 = Done ([[11, 22]], [[10, 20]]) (sconst 0)"
  by (simp add: mixed_attempt_def mixed_source_def mixed_track_dir_def joinpath_def
      random_defs tensor_defs is_RuntimeError_def mixed_valid_def studio_def backend_defs)

lemma attempt_mixed_valid_half:
  "mixed_attempt studio mixed_valid (sconst (2 ^ 52)) 0
     = Done ([[22, 33]], [[20, 30]]) (sconst (2 ^ 52))"
  by (simp add: mixed_attempt_def mixed_source_def mixed_track_dir_def joinpath_def
      random_defs tensor_defs is_RuntimeError_def mixed_valid_def studio_def backend_defs)

lemma load_valid_vocals:
  "audioloader studio ''valid/2/vocals.wav'' 0 (Some 2) = Inr [[10, 20]] \<and>
   audioloader studio ''valid/2/vocals.wav'' 1 (Some 2) = Inr [[20, 30]]"
  by (simp add: studio_def backend_defs)

subsection \<open>Channel swap\<close>

text \<open>
  C9. The channel swap returns a waveform whose channel count is not 2 unchanged (and
  leaves the generator alone); on a 2-channel waveform, two applications that both
  swap return the original waveform.
\<close>

theorem channelswap_noop_and_involution:
  "(length audio \<noteq> 2 \<longrightarrow> augment_source_channelswap audio g = (audio, g)) \<and>
   (length audio = 2 \<and> fst (random_random g) < 1 / 2 \<and> fst (random_random g') < 1 / 2 \<longrightarrow>
      fst (augment_source_channelswap audio g) = rev audio \<and>
      fst (augment_source_channelswap (fst (augment_source_channelswap audio g)) g') = audio)"
  by (simp add: augment_source_channelswap_def split: prod.splits)

theorem channelswap_noop_and_involution_witness:
  "length [[1, 2], [3, 4 :: rat]] = 2 \<and> fst (random_random (sconst 0)) < 1 / 2 \<and>
   fst (augment_source_channelswap [[1, 2], [3, 4]] (sconst 0)) = rev [[1, 2], [3, 4]] \<and>
   fst (augment_source_channelswap
          (fst (augment_source_channelswap [[1, 2], [3, 4]] (sconst 0))) (sconst 0))
     = [[1, 2], [3, 4]] \<and>
   length [[1, 2, 3 :: rat]] \<noteq> 2 \<and>
   augment_source_channelswap [[1, 2, 3]] (sconst 0) = ([[1, 2, 3]], sconst 0)"
proof -
  have two: "length [[1, 2], [3, 4 :: rat]] = 2 \<and> fst (random_random (sconst 0)) < 1 / 2"
    by (simp add: random_random_def)
  have other: "length [[1, 2, 3 :: rat]] \<noteq> 2"
    by simp
  from two other
    channelswap_noop_and_involution [of "[[1, 2], [3, 4]]" "sconst 0" "sconst 0"]
    channelswap_noop_and_involution [of "[[1, 2, 3]]" "sconst 0" "sconst 0"]
  show ?thesis
    by blast
qed

subsection \<open>Shapes of the returned pair\<close>

text \<open>
  C1, as stated, fails: AlignedSources returns what its two files hold, and nothing
  compares their shapes. With a mono input and a stereo output the returned pair has the
  shapes (1, 2) and (2, 2).
\<close>

theorem aligned_shapes_differ:
  "AlignedSources_init ''valid'' (Some 1) 2 [(''valid/1/mixture.wav'', ''valid/1/vocals.wav'')]
     = Inr aligned_valid \<and>
   aligned_getitem 1000 studio aligned_valid (sconst 0) 0
     = Inr (([[1, 2]], [[5, 6], [9, 10]]), sconst 0) \<and>
   shape [[1, 2]] = (1, 2) \<and> shape [[5, 6], [9, 10]] = (2, 2)"
proof -
  have "AlignedSources_init ''valid'' (Some 1) 2
          [(''valid/1/mixture.wav'', ''valid/1/vocals.wav'')] = Inr aligned_valid"
    by (simp add: AlignedSources_init_def aligned_valid_def)
  moreover have "aligned_getitem 1000 studio aligned_valid (sconst 0) 0
      = Inr (([[1, 2]], [[5, 6], [9, 10]]), sconst 0)"
    by (rule getitem_aligned_valid)
  moreover have "shape [[1, 2]] = (1, 2) \<and> shape [[5, 6], [9, 10]] = (2, 2)"
    by (simp add: shape_def nb_timesteps_def)
  ultimately show ?thesis by blast
qed

text \<open>
  C1, amended. UnalignedSources, MixedSources and MUSDBDataset in the training split
  return an input and a target of equal shape. AlignedSources with a positive
  \<^verbatim>\<open>seq_duration\<close> returns an input with the channel count of its input file and
  \<^verbatim>\<open>int(seq_duration * rate)\<close> samples at that file's rate, and a target with those of
  its output file: the two shapes agree exactly when the two files agree in both.
\<close>

theorem returned_shapes:
  "(unaligned_getitem w u g index = Inr ((mix, target), g1) \<longrightarrow> shape mix = shape target) \<and>
   (mixed_getitem depth w m g index = Inr ((x, y), g2) \<longrightarrow> shape x = shape y) \<and>
   (musdb_getitem mus g index = Inr ((x', y'), ts, g3) \<and> mus_split mus = ''train''
      \<longrightarrow> shape x' = shape y') \<and>
   (aligned_getitem depth w a g index = Inr ((X, Y), g4) \<and> a_seq_duration a = Some d \<and> 0 < d
      \<longrightarrow> (\<exists>input_path output_path fi fo.
             (input_path, output_path) \<in> set (tuple_paths a) \<and>
             files w input_path = Some fi \<and> files w output_path = Some fo \<and>
             shape X = (length (data fi), nat (py_int (d * of_nat (rate fi)))) \<and>
             shape Y = (length (data fo), nat (py_int (d * of_nat (rate fo))))))"
proof (intro conjI impI)
  assume "unaligned_getitem w u g index = Inr ((mix, target), g1)"
  then show "shape mix = shape target" by (rule unaligned_equal_shape)
next
  assume "mixed_getitem depth w m g index = Inr ((x, y), g2)"
  then show "shape x = shape y" by (rule mixed_equal_shape)
next
  assume "musdb_getitem mus g index = Inr ((x', y'), ts, g3) \<and> mus_split mus = ''train''"
  then show "shape x' = shape y'" by (blast intro: musdb_train_equal_shape)
next
  assume "aligned_getitem depth w a g index = Inr ((X, Y), g4) \<and> a_seq_duration a = Some d \<and> 0 < d"
  then have r: "aligned_getitem depth w a g index = Inr ((X, Y), g4)"
    and d: "a_seq_duration a = Some d" "0 < d" by simp_all
  from r d obtain input_path output_path fi fo start where
    "(input_path, output_path) \<in> set (tuple_paths a)"
    "files w input_path = Some fi" "files w output_path = Some fo"
    "X = window fi start d" "Y = window fo start d"
    "nb_timesteps X = nat (py_int (d * of_nat (rate fi)))"
    "nb_timesteps Y = nat (py_int (d * of_nat (rate fo)))"
    by (rule aligned_exact)
  then show "\<exists>input_path output_path fi fo.
             (input_path, output_path) \<in> set (tuple_paths a) \<and>
             files w input_path = Some fi \<and> files w output_path = Some fo \<and>
             shape X = (length (data fi), nat (py_int (d * of_nat (rate fi)))) \<and>
             shape Y = (length (data fo), nat (py_int (d * of_nat (rate fo))))"
    by (auto simp: shape_def window_length)
qed

theorem returned_shapes_witness:
  "unaligned_getitem studio unaligned_pair (sconst 0) 0
     = Inr (([[11, 22]], [[10, 20]]), sconst 0) \<and>
   shape [[11, 22 :: rat]] = shape [[10, 20 :: rat]] \<and>
   mixed_getitem 1000 studio mixed_train (0 ## 0 ## 0 ## 2 ^ 52 ## sconst 0) 0
     = Inr (([[21, 32]], [[20, 30]]), sconst 0) \<and>
   shape [[21, 32 :: rat]] = shape [[20, 30 :: rat]] \<and>
   musdb_getitem musdb_train (sconst 0) 0
     = Inr (([[11, 22]], [[10, 20]]),
            [song\<lparr>chunk_start := 0, chunk_duration := Some 2\<rparr>], sconst 0) \<and>
   mus_split musdb_train = ''train'' \<and>
   aligned_getitem 1000 studio aligned_valid (sconst 0) 0
     = Inr (([[1, 2]], [[5, 6], [9, 10]]), sconst 0) \<and>
   a_seq_duration aligned_valid = Some 1 \<and> (0 :: rat) < 1 \<and>
   (\<exists>input_path output_path fi fo.
       (input_path, output_path) \<in> set (tuple_paths aligned_valid) \<and>
       files studio input_path = Some fi \<and> files studio output_path = Some fo \<and>
       shape [[1, 2]] = (length (data fi), nat (py_int (1 * of_nat (rate fi)))) \<and>
       shape [[5, 6], [9, 10]] = (length (data fo), nat (py_int (1 * of_nat (rate fo)))))"
proof -
  have u: "unaligned_getitem studio unaligned_pair (sconst 0) 0
             = Inr (([[11, 22]], [[10, 20]]), sconst 0)"
    by (simp add: getitem_unaligned_pair)
  have m: "mixed_getitem 1000 studio mixed_train (0 ## 0 ## 0 ## 2 ^ 52 ## sconst 0) 0
             = Inr (([[21, 32]], [[20, 30]]), sconst 0)"
    unfolding python_recursion_limit by (rule mixed_getitem_Done) (rule attempt_mixed_train)
  have s: "musdb_getitem musdb_train (sconst 0) 0
             = Inr (([[11, 22]], [[10, 20]]),
                    [song\<lparr>chunk_start := 0, chunk_duration := Some 2\<rparr>], sconst 0)"
    by (rule getitem_musdb_train)
  have t: "mus_split musdb_train = ''train''" by (simp add: musdb_train_def)
  have a: "aligned_getitem 1000 studio aligned_valid (sconst 0) 0
             = Inr (([[1, 2]], [[5, 6], [9, 10]]), sconst 0)"
    by (rule getitem_aligned_valid)
  have d: "a_seq_duration aligned_valid = Some 1 \<and> (0 :: rat) < 1"
    by (simp add: aligned_valid_def)
  from u returned_shapes [where w = studio and u = unaligned_pair and g = "sconst 0"
      and index = 0 and mix = "[[11, 22]]" and target = "[[10, 20]]" and ?g1.0 = "sconst 0"]
  have 1: "shape [[11, 22 :: rat]] = shape [[10, 20 :: rat]]" by blast
  from m returned_shapes [where w = studio and m = mixed_train and depth = 1000
      and g = "0 ## 0 ## 0 ## 2 ^ 52 ## sconst 0"
      and index = 0 and x = "[[21, 32]]" and y = "[[20, 30]]" and ?g2.0 = "sconst 0"]
  have 2: "shape [[21, 32 :: rat]] = shape [[20, 30 :: rat]]" by blast
  from a d returned_shapes [where w = studio and a = aligned_valid and depth = 1000
      and g = "sconst 0" and index = 0 and X = "[[1, 2]]" and Y = "[[5, 6], [9, 10]]"
      and ?g4.0 = "sconst 0" and d = 1]
  have 4: "\<exists>input_path output_path fi fo.
       (input_path, output_path) \<in> set (tuple_paths aligned_valid) \<and>
       files studio input_path = Some fi \<and> files studio output_path = Some fo \<and>
       shape [[1, 2]] = (length (data fi), nat (py_int (1 * of_nat (rate fi)))) \<and>
       shape [[5, 6], [9, 10]] = (length (data fo), nat (py_int (1 * of_nat (rate fo))))"
    by blast
  from u m s t a d 1 2 4 show ?thesis
    by blast
qed

subsection \<open>UnalignedSources ignores the index\<close>

text \<open>
  C10. \<^verbatim>\<open>UnalignedSources.__getitem__\<close> never reads its index: with the same generator
  state any two indices, inside or outside the declared length, give the same result,
  and no index is rejected.
\<close>

theorem unaligned_ignores_index:
  "unaligned_getitem w ds g i = unaligned_getitem w ds g j"
  by (simp add: unaligned_getitem_def)

theorem unaligned_ignores_index_witness:
  "unaligned_getitem studio unaligned_pair (sconst 0) (int (unaligned_len unaligned_pair) + 5)
     = Inr (([[11, 22]], [[10, 20]]), sconst 0) \<and>
   unaligned_getitem studio unaligned_pair (sconst 0) (- 7)
     = Inr (([[11, 22]], [[10, 20]]), sconst 0)"
proof -
  have u: "unaligned_getitem studio unaligned_pair (sconst 0) 0
             = Inr (([[11, 22]], [[10, 20]]), sconst 0)"
    by (simp add: getitem_unaligned_pair)
  from u unaligned_ignores_index [of studio unaligned_pair "sconst 0"
      "int (unaligned_len unaligned_pair) + 5" 0]
    unaligned_ignores_index [of studio unaligned_pair "sconst 0" "- 7" 0]
  show ?thesis by simp
qed

subsection \<open>Full-length mode\<close>

text \<open>
  C6. The constructors turn a \<^verbatim>\<open>seq_duration\<close> of 0 or less into None, the
  full-length mode, but \<^verbatim>\<open>__getitem__\<close> of AlignedSources and of MixedSources then
  computes with None and raises TypeError instead of returning the whole files; with
  \<^verbatim>\<open>seq_duration\<close> left at its default None the constructor itself raises TypeError.
  UnalignedSources, whose \<^verbatim>\<open>__getitem__\<close> does load whole files, cannot be constructed:
  its constructor reads an attribute it never sets.
\<close>

theorem full_length_mode_raises:
  "AlignedSources_init ''valid'' (Some 0) 2 [(''valid/1/mixture.wav'', ''valid/1/vocals.wav'')]
     = Inr aligned_full \<and>
   aligned_getitem 1000 studio aligned_full (sconst 0) 0 = Inl TypeError \<and>
   MixedSources_init ''train'' ''vocals.wav'' [''bass.wav''] (Some 0) 1 [''train/1'']
     = Inr mixed_full \<and>
   mixed_getitem 1000 studio mixed_full (sconst 0) 0 = Inl TypeError \<and>
   AlignedSources_init ''valid'' None 2 [(''valid/1/mixture.wav'', ''valid/1/vocals.wav'')]
     = Inl TypeError \<and>
   MixedSources_init ''train'' ''vocals.wav'' [''bass.wav''] None 1 [''train/1'']
     = Inl TypeError \<and>
   UnalignedSources_init ''train'' None ''vocals'' [''bass''] glob 1 1000 = Inl TypeError \<and>
   UnalignedSources_init ''train'' (Some 0) ''vocals'' [''bass''] glob 1 1000
     = Inl AttributeError"
proof -
  have "AlignedSources_init ''valid'' (Some 0) 2
          [(''valid/1/mixture.wav'', ''valid/1/vocals.wav'')] = Inr aligned_full"
    by (simp add: AlignedSources_init_def aligned_full_def)
  moreover have "aligned_attempt studio aligned_full (sconst 0) 0 = Raise TypeError"
    by (simp add: aligned_attempt_def aligned_load_def aligned_start_def aligned_short_def
        py_getitem_def aligned_full_def studio_def backend_defs)
  then have "aligned_getitem 1000 studio aligned_full (sconst 0) 0 = Inl TypeError"
    unfolding python_recursion_limit by (rule aligned_getitem_Raise)
  moreover have "MixedSources_init ''train'' ''vocals.wav'' [''bass.wav''] (Some 0) 1 [''train/1'']
     = Inr mixed_full"
    by (simp add: MixedSources_init_def mixed_full_def)
  moreover have "mixed_attempt studio mixed_full (sconst 0) 0 = Raise TypeError"
    by (simp add: mixed_attempt_def mixed_source_def mixed_track_dir_def joinpath_def
        random_defs mixed_full_def studio_def backend_defs)
  then have "mixed_getitem 1000 studio mixed_full (sconst 0) 0 = Inl TypeError"
    unfolding python_recursion_limit by (rule mixed_getitem_Raise)
  moreover have "AlignedSources_init ''valid'' None 2
          [(''valid/1/mixture.wav'', ''valid/1/vocals.wav'')] = Inl TypeError"
    by (simp add: AlignedSources_init_def)
  moreover have "MixedSources_init ''train'' ''vocals.wav'' [''bass.wav''] None 1 [''train/1'']
     = Inl TypeError"
    by (simp add: MixedSources_init_def)
  moreover have "UnalignedSources_init ''train'' None ''vocals'' [''bass''] glob 1 1000
     = Inl TypeError"
    by (simp add: UnalignedSources_init_def)
  moreover have "UnalignedSources_init ''train'' (Some 0) ''vocals'' [''bass''] glob 1 1000
     = Inl AttributeError"
    by (simp add: UnalignedSources_init_def unaligned_get_paths_def)
  ultimately show ?thesis by blast
qed

subsection \<open>The excerpt start within one example\<close>

text \<open>
  C4, as stated, fails for MixedSources: the start is drawn inside the loop, once per
  source. In this example of the training split the bass stem is the excerpt from
  second 0 and the vocals stem the excerpt from second 1, and the mixture is their sum.
\<close>

theorem mixed_starts_differ:
  "MixedSources_init ''train'' ''vocals.wav'' [''bass.wav''] (Some 2) 1 [''train/1'']
     = Inr mixed_train \<and>
   mixed_getitem 1000 studio mixed_train (0 ## 0 ## 0 ## 2 ^ 52 ## sconst 0) 0
     = Inr ((wave_add [[1, 2]] [[20, 30]], [[20, 30]]), sconst 0) \<and>
   audioloader studio ''train/1/bass.wav'' 0 (Some 2) = Inr [[1, 2]] \<and>
   audioloader studio ''train/1/bass.wav'' 1 (Some 2) = Inr [[2, 3]] \<and>
   audioloader studio ''train/1/vocals.wav'' 0 (Some 2) = Inr [[10, 20]] \<and>
   audioloader studio ''train/1/vocals.wav'' 1 (Some 2) = Inr [[20, 30]]"
proof -
  have "MixedSources_init ''train'' ''vocals.wav'' [''bass.wav''] (Some 2) 1 [''train/1'']
     = Inr mixed_train"
    by (simp add: MixedSources_init_def mixed_train_def)
  moreover have sum: "wave_add [[1, 2]] [[20, 30]] = [[21, 32]]"
    by (simp add: wave_add_def)
  have "mixed_attempt studio mixed_train (0 ## 0 ## 0 ## 2 ^ 52 ## sconst 0) 0
      = Done (wave_add [[1, 2]] [[20, 30]], [[20, 30]]) (sconst 0)"
    unfolding sum by (rule attempt_mixed_train)
  then have "mixed_getitem 1000 studio mixed_train (0 ## 0 ## 0 ## 2 ^ 52 ## sconst 0) 0
     = Inr ((wave_add [[1, 2]] [[20, 30]], [[20, 30]]), sconst 0)"
    unfolding python_recursion_limit by (rule mixed_getitem_Done)
  moreover have "audioloader studio ''train/1/bass.wav'' 0 (Some 2) = Inr [[1, 2]]"
    "audioloader studio ''train/1/bass.wav'' 1 (Some 2) = Inr [[2, 3]]"
    "audioloader studio ''train/1/vocals.wav'' 0 (Some 2) = Inr [[10, 20]]"
    "audioloader studio ''train/1/vocals.wav'' 1 (Some 2) = Inr [[20, 30]]"
    by (simp_all add: studio_def backend_defs)
  ultimately show ?thesis by blast
qed

text \<open>
  C4, amended. AlignedSources loads the input and the output of an example with one
  and the same start. MixedSources in the training split draws a track folder and a
  start for every stem: the stem of a source is loaded from the start drawn from the
  generator as it is when that source is reached.
\<close>

theorem starts_within_one_example:
  "(aligned_getitem depth w a g index = Inr ((X, Y), g') \<longrightarrow>
      (\<exists>input_path output_path start.
          (input_path, output_path) \<in> set (tuple_paths a) \<and>
          audioloader w input_path start (a_seq_duration a) = Inr X \<and>
          audioloader w output_path start (a_seq_duration a) = Inr Y)) \<and>
   (m_augmentations m \<and> mixed_source w m source g index = Done s g2 \<longrightarrow>
      (\<exists>track_dir g1 input_info d.
          random_choice (tracks m) g = Inr (track_dir, g1) \<and>
          audioinfo w (joinpath track_dir source) = Inr input_info \<and>
          m_seq_duration m = Some d \<and>
          g2 = snd (random_uniform 0 (duration input_info - d) g1) \<and>
          audioloader w (joinpath track_dir source)
            (fst (random_uniform 0 (duration input_info - d) g1)) (Some d) = Inr s))"
proof (intro conjI impI)
  assume r: "aligned_getitem depth w a g index = Inr ((X, Y), g')"
  from aligned_getitem_Inr [OF r] obtain g0 index0
    where "aligned_attempt w a g0 index0 = Done (X, Y) g'" by blast
  then obtain ip op ii oi start
    where paths: "py_getitem (tuple_paths a) index0 = Inr (ip, op)"
      and lx: "audioloader w ip start (a_seq_duration a) = Inr X"
      and ly: "audioloader w op start (a_seq_duration a) = Inr Y"
    by (rule aligned_attempt_Done)
  with py_getitem_mem [OF paths]
  show "\<exists>input_path output_path start.
          (input_path, output_path) \<in> set (tuple_paths a) \<and>
          audioloader w input_path start (a_seq_duration a) = Inr X \<and>
          audioloader w output_path start (a_seq_duration a) = Inr Y"
    by blast
next
  assume "m_augmentations m \<and> mixed_source w m source g index = Done s g2"
  then show "\<exists>track_dir g1 input_info d.
          random_choice (tracks m) g = Inr (track_dir, g1) \<and>
          audioinfo w (joinpath track_dir source) = Inr input_info \<and>
          m_seq_duration m = Some d \<and>
          g2 = snd (random_uniform 0 (duration input_info - d) g1) \<and>
          audioloader w (joinpath track_dir source)
            (fst (random_uniform 0 (duration input_info - d) g1)) (Some d) = Inr s"
    by (auto simp: mixed_source_def mixed_track_dir_def
        split: sum.splits if_splits prod.splits option.splits)
qed

theorem starts_within_one_example_witness:
  "aligned_getitem 1000 studio aligned_valid (sconst 0) 0
     = Inr (([[1, 2]], [[5, 6], [9, 10]]), sconst 0) \<and>
   (\<exists>input_path output_path start.
       (input_path, output_path) \<in> set (tuple_paths aligned_valid) \<and>
       audioloader studio input_path start (a_seq_duration aligned_valid) = Inr [[1, 2]] \<and>
       audioloader studio output_path start (a_seq_duration aligned_valid)
         = Inr [[5, 6], [9, 10]]) \<and>
   m_augmentations mixed_train \<and>
   mixed_source studio mixed_train ''vocals.wav'' (0 ## 2 ^ 52 ## sconst 0) 0
     = Done [[20, 30]] (sconst 0) \<and>
   (\<exists>track_dir g1 input_info d.
       random_choice (tracks mixed_train) (0 ## 2 ^ 52 ## sconst 0) = Inr (track_dir, g1) \<and>
       audioinfo studio (joinpath track_dir ''vocals.wav'') = Inr input_info \<and>
       m_seq_duration mixed_train = Some d \<and>
       sconst 0 = snd (random_uniform 0 (duration input_info - d) g1) \<and>
       audioloader studio (joinpath track_dir ''vocals.wav'')
         (fst (random_uniform 0 (duration input_info - d) g1)) (Some d) = Inr [[20, 30]])"
proof -
  have a: "aligned_getitem 1000 studio aligned_valid (sconst 0) 0
     = Inr (([[1, 2]], [[5, 6], [9, 10]]), sconst 0)"
    by (rule getitem_aligned_valid)
  have m: "mixed_source studio mixed_train ''vocals.wav'' (0 ## 2 ^ 52 ## sconst 0) 0
     = Done [[20, 30]] (sconst 0)"
    by (simp add: mixed_source_def mixed_track_dir_def joinpath_def
        random_defs is_RuntimeError_def mixed_train_def studio_def backend_defs)
  from a starts_within_one_example [where depth = 1000 and w = studio and a = aligned_valid
      and g = "sconst 0" and index = 0 and X = "[[1, 2]]" and Y = "[[5, 6], [9, 10]]"
      and g' = "sconst 0"]
  have 1: "\<exists>input_path output_path start.
       (input_path, output_path) \<in> set (tuple_paths aligned_valid) \<and>
       audioloader studio input_path start (a_seq_duration aligned_valid) = Inr [[1, 2]] \<and>
       audioloader studio output_path start (a_seq_duration aligned_valid)
         = Inr [[5, 6], [9, 10]]"
    by blast
  have t: "m_augmentations mixed_train" by (simp add: mixed_train_def)
  from t m starts_within_one_example [where w = studio and m = mixed_train
      and source = "''vocals.wav''" and g = "0 ## 2 ^ 52 ## sconst 0" and index = 0
      and s = "[[20, 30]]" and ?g2.0 = "sconst 0"]
  have 2: "\<exists>track_dir g1 input_info d.
       random_choice (tracks mixed_train) (0 ## 2 ^ 52 ## sconst 0) = Inr (track_dir, g1) \<and>
       audioinfo studio (joinpath track_dir ''vocals.wav'') = Inr input_info \<and>
       m_seq_duration mixed_train = Some d \<and>
       sconst 0 = snd (random_uniform 0 (duration input_info - d) g1) \<and>
       audioloader studio (joinpath track_dir ''vocals.wav'')
         (fst (random_uniform 0 (duration input_info - d) g1)) (Some d) = Inr [[20, 30]]"
    by blast
  from a t m 1 2 show ?thesis by blast
qed

subsection \<open>Number of samples of an excerpt\<close>

text \<open>
  C2, as stated, fails. AlignedSources truncates \<^verbatim>\<open>seq_duration * rate\<close> with
  \<^verbatim>\<open>int\<close>: constructed for the validation split with a sample rate of 8000 Hz and a
  \<^verbatim>\<open>seq_duration\<close> of 3/256 s, it returns 93 samples per channel, and \<^verbatim>\<open>round\<close> gives
  94.
\<close>

theorem excerpt_length_differs:
  "AlignedSources_init ''valid'' (Some (3 / 256)) 8000
       [(''valid/1/mixture.wav'', ''valid/1/vocals.wav'')]
     = Inr aligned_8k \<and>
   aligned_getitem 1000 studio8k aligned_8k (sconst 0) 0
     = Inr (([replicate 93 0], [replicate 93 0]), sconst 0) \<and>
   nb_timesteps [replicate 93 0] = 93 \<and>
   py_round (3 / 256 * of_nat (a_sample_rate aligned_8k)) = 94"
proof -
  have "AlignedSources_init ''valid'' (Some (3 / 256)) 8000
       [(''valid/1/mixture.wav'', ''valid/1/vocals.wav'')]
     = Inr aligned_8k"
    by (simp add: AlignedSources_init_def aligned_8k_def)
  moreover have "aligned_getitem 1000 studio8k aligned_8k (sconst 0) 0
      = Inr (([replicate 93 0], [replicate 93 0]), sconst 0)"
    unfolding python_recursion_limit by (rule aligned_getitem_Done) (rule attempt_aligned_8k)
  moreover have "nb_timesteps [replicate 93 0] = 93"
    by (simp add: nb_timesteps_def)
  moreover have "py_round (3 / 256 * of_nat (a_sample_rate aligned_8k)) = 94"
    by (simp add: py_round_def aligned_8k_def floor_375_4 Let_def)
  ultimately show ?thesis by blast
qed

text \<open>
  C2, amended. For AlignedSources with a positive \<^verbatim>\<open>seq_duration\<close>, the returned input
  and target are what the loader delivered for the two files of one pair, from one
  start, and each has exactly the integer part of \<^verbatim>\<open>seq_duration * rate\<close> samples per
  channel, \<^verbatim>\<open>rate\<close> being the sample rate of the file it was read from: a shorter
  excerpt is never returned. For MixedSources the returned target is what the loader
  delivered for the target file of one track folder, for a window that lies inside the
  probed duration of that file; it has at most the integer part of
  \<^verbatim>\<open>seq_duration * rate\<close> samples per channel, and the mixture has as many as the
  target. Nothing is checked after the load.
\<close>

theorem excerpt_length_truncated:
  "(aligned_getitem depth w a g index = Inr ((X, Y), g1) \<and> a_seq_duration a = Some d \<and> 0 < d
      \<longrightarrow> (\<exists>input_path output_path fi fo start.
             (input_path, output_path) \<in> set (tuple_paths a) \<and>
             files w input_path = Some fi \<and> files w output_path = Some fo \<and>
             audioloader w input_path start (Some d) = Inr X \<and>
             audioloader w output_path start (Some d) = Inr Y \<and>
             nb_timesteps X = nat \<lfloor>d * of_nat (rate fi)\<rfloor> \<and>
             nb_timesteps Y = nat \<lfloor>d * of_nat (rate fo)\<rfloor>)) \<and>
   (mixed_getitem depth w m g index = Inr ((x, y), g2) \<and> m_seq_duration m = Some d \<and> 0 < d
      \<longrightarrow> (\<exists>track_dir f input_info start.
             track_dir \<in> set (tracks m) \<and>
             files w (joinpath track_dir (target_file m)) = Some f \<and>
             audioinfo w (joinpath track_dir (target_file m)) = Inr input_info \<and>
             d \<le> duration input_info \<and> 0 \<le> start \<and> start \<le> duration input_info - d \<and>
             audioloader w (joinpath track_dir (target_file m)) start (Some d) = Inr y \<and>
             nb_timesteps y \<le> nat \<lfloor>d * of_nat (rate f)\<rfloor> \<and>
             nb_timesteps x = nb_timesteps y))"
proof (intro conjI impI)
  assume "aligned_getitem depth w a g index = Inr ((X, Y), g1) \<and> a_seq_duration a = Some d \<and> 0 < d"
  then have r: "aligned_getitem depth w a g index = Inr ((X, Y), g1)"
    and d: "a_seq_duration a = Some d" "0 < d" by simp_all
  from r d obtain input_path output_path fi fo start where
    "(input_path, output_path) \<in> set (tuple_paths a)"
    "files w input_path = Some fi" "files w output_path = Some fo"
    "audioloader w input_path start (Some d) = Inr X"
    "audioloader w output_path start (Some d) = Inr Y"
    "nb_timesteps X = nat \<lfloor>d * of_nat (rate fi)\<rfloor>"
    "nb_timesteps Y = nat \<lfloor>d * of_nat (rate fo)\<rfloor>"
    by (rule aligned_loads_exact)
  then show "\<exists>input_path output_path fi fo start.
             (input_path, output_path) \<in> set (tuple_paths a) \<and>
             files w input_path = Some fi \<and> files w output_path = Some fo \<and>
             audioloader w input_path start (Some d) = Inr X \<and>
             audioloader w output_path start (Some d) = Inr Y \<and>
             nb_timesteps X = nat \<lfloor>d * of_nat (rate fi)\<rfloor> \<and>
             nb_timesteps Y = nat \<lfloor>d * of_nat (rate fo)\<rfloor>"
    by blast
next
  assume "mixed_getitem depth w m g index = Inr ((x, y), g2) \<and> m_seq_duration m = Some d \<and> 0 < d"
  then have r: "mixed_getitem depth w m g index = Inr ((x, y), g2)"
    and d: "m_seq_duration m = Some d" "0 < d" by simp_all
  from r obtain g0 index0 stems where
    "\<exists>ga gb. mixed_source w m (target_file m) ga index0 = Done y gb"
    by (rule mixed_target_stem)
  then obtain ga gb where "mixed_source w m (target_file m) ga index0 = Done y gb" by blast
  from this d obtain track_dir f input_info start where "track_dir \<in> set (tracks m)"
    "files w (joinpath track_dir (target_file m)) = Some f"
    "audioinfo w (joinpath track_dir (target_file m)) = Inr input_info"
    "d \<le> duration input_info" "0 \<le> start" "start \<le> duration input_info - d"
    "audioloader w (joinpath track_dir (target_file m)) start (Some d) = Inr y"
    "nb_timesteps y \<le> nat \<lfloor>d * of_nat (rate f)\<rfloor>"
    by (rule mixed_source_Done_probe)
  moreover from mixed_equal_shape [OF r] have "nb_timesteps x = nb_timesteps y"
    by (simp add: shape_def)
  ultimately show "\<exists>track_dir f input_info start.
             track_dir \<in> set (tracks m) \<and>
             files w (joinpath track_dir (target_file m)) = Some f \<and>
             audioinfo w (joinpath track_dir (target_file m)) = Inr input_info \<and>
             d \<le> duration input_info \<and> 0 \<le> start \<and> start \<le> duration input_info - d \<and>
             audioloader w (joinpath track_dir (target_file m)) start (Some d) = Inr y \<and>
             nb_timesteps y \<le> nat \<lfloor>d * of_nat (rate f)\<rfloor> \<and>
             nb_timesteps x = nb_timesteps y"
    by blast
qed

theorem excerpt_length_truncated_witness:
  "aligned_getitem 1000 studio8k aligned_8k (sconst 0) 0
     = Inr (([replicate 93 0], [replicate 93 0]), sconst 0) \<and>
   a_seq_duration aligned_8k = Some (3 / 256) \<and> (0 :: rat) < 3 / 256 \<and>
   (\<exists>input_path output_path fi fo start.
       (input_path, output_path) \<in> set (tuple_paths aligned_8k) \<and>
       files studio8k input_path = Some fi \<and> files studio8k output_path = Some fo \<and>
       audioloader studio8k input_path start (Some (3 / 256)) = Inr [replicate 93 0] \<and>
       audioloader studio8k output_path start (Some (3 / 256)) = Inr [replicate 93 0] \<and>
       nb_timesteps [replicate 93 (0 :: rat)] = nat \<lfloor>3 / 256 * of_nat (rate fi) :: rat\<rfloor> \<and>
       nb_timesteps [replicate 93 (0 :: rat)] = nat \<lfloor>3 / 256 * of_nat (rate fo) :: rat\<rfloor>) \<and>
   mixed_getitem 1000 studio mixed_train (0 ## 0 ## 0 ## 2 ^ 52 ## sconst 0) 0
     = Inr (([[21, 32]], [[20, 30]]), sconst 0) \<and>
   m_seq_duration mixed_train = Some 2 \<and> (0 :: rat) < 2 \<and>
   (\<exists>track_dir f input_info start.
       track_dir \<in> set (tracks mixed_train) \<and>
       files studio (joinpath track_dir (target_file mixed_train)) = Some f \<and>
       audioinfo studio (joinpath track_dir (target_file mixed_train)) = Inr input_info \<and>
       2 \<le> duration input_info \<and> 0 \<le> start \<and> start \<le> duration input_info - 2 \<and>
       audioloader studio (joinpath track_dir (target_file mixed_train)) start (Some 2)
         = Inr [[20, 30]] \<and>
       nb_timesteps [[20, 30 :: rat]] \<le> nat \<lfloor>2 * of_nat (rate f) :: rat\<rfloor> \<and>
       nb_timesteps [[21, 32 :: rat]] = nb_timesteps [[20, 30 :: rat]])"
proof -
  have a: "aligned_getitem 1000 studio8k aligned_8k (sconst 0) 0
      = Inr (([replicate 93 0], [replicate 93 0]), sconst 0)"
    unfolding python_recursion_limit by (rule aligned_getitem_Done) (rule attempt_aligned_8k)
  have da: "a_seq_duration aligned_8k = Some (3 / 256) \<and> (0 :: rat) < 3 / 256"
    by (simp add: aligned_8k_def)
  have m: "mixed_getitem 1000 studio mixed_train (0 ## 0 ## 0 ## 2 ^ 52 ## sconst 0) 0
             = Inr (([[21, 32]], [[20, 30]]), sconst 0)"
    unfolding python_recursion_limit by (rule mixed_getitem_Done) (rule attempt_mixed_train)
  have dm: "m_seq_duration mixed_train = Some 2 \<and> (0 :: rat) < 2"
    by (simp add: mixed_train_def)
  from a da excerpt_length_truncated [where w = studio8k and a = aligned_8k and depth = 1000
      and g = "sconst 0" and index = 0 and X = "[replicate 93 0]" and Y = "[replicate 93 0]"
      and ?g1.0 = "sconst 0" and d = "3 / 256"]
  have 1: "\<exists>input_path output_path fi fo start.
       (input_path, output_path) \<in> set (tuple_paths aligned_8k) \<and>
       files studio8k input_path = Some fi \<and> files studio8k output_path = Some fo \<and>
       audioloader studio8k input_path start (Some (3 / 256)) = Inr [replicate 93 0] \<and>
       audioloader studio8k output_path start (Some (3 / 256)) = Inr [replicate 93 0] \<and>
       nb_timesteps [replicate 93 (0 :: rat)] = nat \<lfloor>3 / 256 * of_nat (rate fi) :: rat\<rfloor> \<and>
       nb_timesteps [replicate 93 (0 :: rat)] = nat \<lfloor>3 / 256 * of_nat (rate fo) :: rat\<rfloor>"
    by blast
  from m dm excerpt_length_truncated [where w = studio and m = mixed_train and depth = 1000
      and g = "0 ## 0 ## 0 ## 2 ^ 52 ## sconst 0" and index = 0
      and x = "[[21, 32]]" and y = "[[20, 30]]" and ?g2.0 = "sconst 0" and d = 2]
  have 2: "\<exists>track_dir f input_info start.
       track_dir \<in> set (tracks mixed_train) \<and>
       files studio (joinpath track_dir (target_file mixed_train)) = Some f \<and>
       audioinfo studio (joinpath track_dir (target_file mixed_train)) = Inr input_info \<and>
       2 \<le> duration input_info \<and> 0 \<le> start \<and> start \<le> duration input_info - 2 \<and>
       audioloader studio (joinpath track_dir (target_file mixed_train)) start (Some 2)
         = Inr [[20, 30]] \<and>
       nb_timesteps [[20, 30 :: rat]] \<le> nat \<lfloor>2 * of_nat (rate f) :: rat\<rfloor> \<and>
       nb_timesteps [[21, 32 :: rat]] = nb_timesteps [[20, 30 :: rat]]"
    by blast
  from a da m dm 1 2 show ?thesis by blast
qed

subsection \<open>The mixture is the sum of the stems\<close>

text \<open>
  C7. For UnalignedSources and MixedSources, one stem is loaded for each source, the
  target's source last; every stem has the shape of the returned input, the returned
  input is the sample-wise sum of all these stems, and the returned target is the last
  of them: the target is part of the mixture.
\<close>

theorem mixture_is_sum_of_stems:
  "(unaligned_getitem w u g index = Inr ((mix, target), g1) \<longrightarrow>
      (\<exists>input_tuple stems.
          length input_tuple = length (sources u) \<and>
          (\<forall>k < length input_tuple. input_tuple ! k \<in> set (sources u ! k)) \<and>
          length stems = length input_tuple \<and> stems \<noteq> [] \<and>
          (\<forall>k < length stems.
              audioloader w (input_tuple ! k) 0 (u_seq_duration u) = Inr (stems ! k)) \<and>
          target = last stems \<and>
          (\<forall>s \<in> set stems. map length s = map length mix) \<and>
          (\<forall>c < length mix. \<forall>n < length (mix ! c). mix ! c ! n = (\<Sum>s\<leftarrow>stems. s ! c ! n)))) \<and>
   (mixed_getitem depth w m g index = Inr ((x, y), g2) \<longrightarrow>
      (\<exists>stems.
          length stems = length (interferers m) + 1 \<and>
          (\<forall>k < length stems. \<exists>track_dir start.
              track_dir \<in> set (tracks m) \<and>
              audioloader w (joinpath track_dir ((interferers m @ [target_file m]) ! k)) start
                  (m_seq_duration m)
                = Inr (stems ! k)) \<and>
          y = last stems \<and>
          (\<forall>s \<in> set stems. map length s = map length x) \<and>
          (\<forall>c < length x. \<forall>n < length (x ! c). x ! c ! n = (\<Sum>s\<leftarrow>stems. s ! c ! n))))"
proof (intro conjI impI)
  assume "unaligned_getitem w u g index = Inr ((mix, target), g1)"
  then obtain input_tuple stems where rp: "random_product (sources u) g = Inr (input_tuple, g1)"
    and la: "load_all w u input_tuple = Inr stems" and st: "torch_stack stems = Inr stems"
    and ne: "stems \<noteq> []" and mix: "mix = stems_sum stems" and tg: "target = last stems"
    by (rule unaligned_getitem_Inr)
  from random_product_Inr [OF rp] have len: "length input_tuple = length (sources u)"
    and pools: "\<forall>k < length input_tuple. input_tuple ! k \<in> set (sources u ! k)"
    by simp_all
  from load_all_Inr [OF la] have slen: "length stems = length input_tuple"
    and loads: "\<forall>k < length stems.
        audioloader w (input_tuple ! k) 0 (u_seq_duration u) = Inr (stems ! k)"
    by (simp_all add: load_audio_def)
  have dims: "\<forall>s \<in> set stems. map length s = map length mix"
  proof
    fix s assume "s \<in> set stems"
    with st have "map length (stems_sum stems) = map length s" by (rule lengths_stems_sum)
    with mix show "map length s = map length mix" by simp
  qed
  have sum: "\<forall>c < length mix. \<forall>n < length (mix ! c). mix ! c ! n = (\<Sum>s\<leftarrow>stems. s ! c ! n)"
    using stems_sum_nth [OF st] mix by simp
  from len pools slen ne loads tg dims sum
  show "\<exists>input_tuple stems.
          length input_tuple = length (sources u) \<and>
          (\<forall>k < length input_tuple. input_tuple ! k \<in> set (sources u ! k)) \<and>
          length stems = length input_tuple \<and> stems \<noteq> [] \<and>
          (\<forall>k < length stems.
              audioloader w (input_tuple ! k) 0 (u_seq_duration u) = Inr (stems ! k)) \<and>
          target = last stems \<and>
          (\<forall>s \<in> set stems. map length s = map length mix) \<and>
          (\<forall>c < length mix. \<forall>n < length (mix ! c). mix ! c ! n = (\<Sum>s\<leftarrow>stems. s ! c ! n))"
    by blast
next
  assume "mixed_getitem depth w m g index = Inr ((x, y), g2)"
  then obtain g0 index0 stems where st: "torch_stack stems = Inr stems"
    and x: "x = stems_sum stems" and y: "y = last stems"
    and len: "length stems = length (interferers m) + 1"
    and nth: "\<forall>k < length stems. \<exists>ga gb.
           mixed_source w m ((interferers m @ [target_file m]) ! k) ga index0
             = Done (stems ! k) gb"
    by (rule mixed_target_stem)
  have loads: "\<forall>k < length stems. \<exists>track_dir start.
              track_dir \<in> set (tracks m) \<and>
              audioloader w (joinpath track_dir ((interferers m @ [target_file m]) ! k)) start
                  (m_seq_duration m)
                = Inr (stems ! k)"
  proof (intro allI impI)
    fix k assume "k < length stems"
    with nth obtain ga gb where
      "mixed_source w m ((interferers m @ [target_file m]) ! k) ga index0 = Done (stems ! k) gb"
      by blast
    then obtain track_dir start where "track_dir \<in> set (tracks m)"
      "audioloader w (joinpath track_dir ((interferers m @ [target_file m]) ! k)) start
          (m_seq_duration m) = Inr (stems ! k)"
      by (rule mixed_source_Done_load)
    then show "\<exists>track_dir start.
              track_dir \<in> set (tracks m) \<and>
              audioloader w (joinpath track_dir ((interferers m @ [target_file m]) ! k)) start
                  (m_seq_duration m)
                = Inr (stems ! k)"
      by blast
  qed
  have dims: "\<forall>s \<in> set stems. map length s = map length x"
  proof
    fix s assume "s \<in> set stems"
    with st have "map length (stems_sum stems) = map length s" by (rule lengths_stems_sum)
    with x show "map length s = map length x" by simp
  qed
  have sum: "\<forall>c < length x. \<forall>n < length (x ! c). x ! c ! n = (\<Sum>s\<leftarrow>stems. s ! c ! n)"
    using stems_sum_nth [OF st] x by simp
  from len loads y dims sum
  show "\<exists>stems.
          length stems = length (interferers m) + 1 \<and>
          (\<forall>k < length stems. \<exists>track_dir start.
              track_dir \<in> set (tracks m) \<and>
              audioloader w (joinpath track_dir ((interferers m @ [target_file m]) ! k)) start
                  (m_seq_duration m)
                = Inr (stems ! k)) \<and>
          y = last stems \<and>
          (\<forall>s \<in> set stems. map length s = map length x) \<and>
          (\<forall>c < length x. \<forall>n < length (x ! c). x ! c ! n = (\<Sum>s\<leftarrow>stems. s ! c ! n))"
    by blast
qed

theorem mixture_is_sum_of_stems_witness:
  "unaligned_getitem studio unaligned_pair (sconst 0) 0
     = Inr (([[11, 22]], [[10, 20]]), sconst 0) \<and>
   (\<exists>input_tuple stems.
       length input_tuple = length (sources unaligned_pair) \<and>
       (\<forall>k < length input_tuple. input_tuple ! k \<in> set (sources unaligned_pair ! k)) \<and>
       length stems = length input_tuple \<and> stems \<noteq> [] \<and>
       (\<forall>k < length stems.
           audioloader studio (input_tuple ! k) 0 (u_seq_duration unaligned_pair)
             = Inr (stems ! k)) \<and>
       [[10, 20]] = last stems \<and>
       (\<forall>s \<in> set stems. map length s = map length [[11, 22 :: rat]]) \<and>
       (\<forall>c < length [[11, 22 :: rat]]. \<forall>n < length ([[11, 22 :: rat]] ! c).
           [[11, 22]] ! c ! n = (\<Sum>s\<leftarrow>stems. s ! c ! n))) \<and>
   mixed_getitem 1000 studio mixed_train (0 ## 0 ## 0 ## 2 ^ 52 ## sconst 0) 0
     = Inr (([[21, 32]], [[20, 30]]), sconst 0) \<and>
   (\<exists>stems.
       length stems = length (interferers mixed_train) + 1 \<and>
       (\<forall>k < length stems. \<exists>track_dir start.
           track_dir \<in> set (tracks mixed_train) \<and>
           audioloader studio
               (joinpath track_dir ((interferers mixed_train @ [target_file mixed_train]) ! k))
               start (m_seq_duration mixed_train)
             = Inr (stems ! k)) \<and>
       [[20, 30]] = last stems \<and>
       (\<forall>s \<in> set stems. map length s = map length [[21, 32 :: rat]]) \<and>
       (\<forall>c < length [[21, 32 :: rat]]. \<forall>n < length ([[21, 32 :: rat]] ! c).
           [[21, 32]] ! c ! n = (\<Sum>s\<leftarrow>stems. s ! c ! n)))"
proof -
  have u: "unaligned_getitem studio unaligned_pair (sconst 0) 0
             = Inr (([[11, 22]], [[10, 20]]), sconst 0)"
    by (simp add: getitem_unaligned_pair)
  have m: "mixed_getitem 1000 studio mixed_train (0 ## 0 ## 0 ## 2 ^ 52 ## sconst 0) 0
             = Inr (([[21, 32]], [[20, 30]]), sconst 0)"
    unfolding python_recursion_limit by (rule mixed_getitem_Done) (rule attempt_mixed_train)
  from u mixture_is_sum_of_stems [where w = studio and u = unaligned_pair and g = "sconst 0"
      and index = 0 and mix = "[[11, 22]]" and target = "[[10, 20]]" and ?g1.0 = "sconst 0"]
  have 1: "\<exists>input_tuple stems.
       length input_tuple = length (sources unaligned_pair) \<and>
       (\<forall>k < length input_tuple. input_tuple ! k \<in> set (sources unaligned_pair ! k)) \<and>
       length stems = length input_tuple \<and> stems \<noteq> [] \<and>
       (\<forall>k < length stems.
           audioloader studio (input_tuple ! k) 0 (u_seq_duration unaligned_pair)
             = Inr (stems ! k)) \<and>
       [[10, 20]] = last stems \<and>
       (\<forall>s \<in> set stems. map length s = map length [[11, 22 :: rat]]) \<and>
       (\<forall>c < length [[11, 22 :: rat]]. \<forall>n < length ([[11, 22 :: rat]] ! c).
           [[11, 22]] ! c ! n = (\<Sum>s\<leftarrow>stems. s ! c ! n))"
    by blast
  from m mixture_is_sum_of_stems [where w = studio and m = mixed_train and depth = 1000
      and g = "0 ## 0 ## 0 ## 2 ^ 52 ## sconst 0" and index = 0
      and x = "[[21, 32]]" and y = "[[20, 30]]" and ?g2.0 = "sconst 0"]
  have 2: "\<exists>stems.
       length stems = length (interferers mixed_train) + 1 \<and>
       (\<forall>k < length stems. \<exists>track_dir start.
           track_dir \<in> set (tracks mixed_train) \<and>
           audioloader studio
               (joinpath track_dir ((interferers mixed_train @ [target_file mixed_train]) ! k))
               start (m_seq_duration mixed_train)
             = Inr (stems ! k)) \<and>
       [[20, 30]] = last stems \<and>
       (\<forall>s \<in> set stems. map length s = map length [[21, 32 :: rat]]) \<and>
       (\<forall>c < length [[21, 32 :: rat]]. \<forall>n < length ([[21, 32 :: rat]] ! c).
           [[21, 32]] ! c ! n = (\<Sum>s\<leftarrow>stems. s ! c ! n))"
    by blast
  from u m 1 2 show ?thesis by blast
qed

subsection \<open>The accompaniment fallback of MUSDBDataset\<close>



subsection \<open>MixedSources outside the training split\<close>

text \<open>
  C5. MixedSources constructed for the validation split sets \<^verbatim>\<open>random_excerpt\<close> to
  False, and \<^verbatim>\<open>__getitem__\<close> draws the start of every stem all the same: index 0
  returns the excerpt from second 0 under one generator state and the excerpt from
  second 1 under another.
\<close>

theorem mixed_evaluation_depends_on_generator:
  "MixedSources_init ''valid'' ''vocals.wav'' [''bass.wav''] (Some 2) 1 [''valid/2'']
     = Inr mixed_valid \<and>
   \<not> m_random_excerpt mixed_valid \<and>
   mixed_getitem 1000 studio mixed_valid (sconst 0) 0
     = Inr (([[11, 22]], [[10, 20]]), sconst 0) \<and>
   mixed_getitem 1000 studio mixed_valid (sconst (2 ^ 52)) 0
     = Inr (([[22, 33]], [[20, 30]]), sconst (2 ^ 52)) \<and>
   audioloader studio (joinpath ''valid/2'' ''vocals.wav'') 0 (Some 2) = Inr [[10, 20]] \<and>
   audioloader studio (joinpath ''valid/2'' ''vocals.wav'') 1 (Some 2) = Inr [[20, 30]]"
proof -
  have "MixedSources_init ''valid'' ''vocals.wav'' [''bass.wav''] (Some 2) 1 [''valid/2'']
     = Inr mixed_valid"
    by (simp add: MixedSources_init_def mixed_valid_def)
  moreover have "\<not> m_random_excerpt mixed_valid"
    by (simp add: mixed_valid_def)
  moreover have "mixed_getitem 1000 studio mixed_valid (sconst 0) 0
     = Inr (([[11, 22]], [[10, 20]]), sconst 0)"
    unfolding python_recursion_limit by (rule mixed_getitem_Done) (rule attempt_mixed_valid)
  moreover have "mixed_getitem 1000 studio mixed_valid (sconst (2 ^ 52)) 0
     = Inr (([[22, 33]], [[20, 30]]), sconst (2 ^ 52))"
    unfolding python_recursion_limit by (rule mixed_getitem_Done) (rule attempt_mixed_valid_half)
  moreover have "joinpath ''valid/2'' ''vocals.wav'' = ''valid/2/vocals.wav''"
    by (simp add: joinpath_def)
  ultimately show ?thesis using load_valid_vocals by simp
qed

subsection \<open>A missing stem file\<close>

text \<open>
  C3. MixedSources constructed for the validation split over two track folders, the
  first without \<^verbatim>\<open>bass.wav\<close>: at index 0 the body of \<^verbatim>\<open>__getitem__\<close> ends in a call
  of \<^verbatim>\<open>__getitem__\<close> at index 0 again, with the generator unchanged, not at the
  neighbour 1; the recursion ends in RecursionError, which reaches the caller. The
  neighbour would have returned an example.
\<close>

theorem missing_stem_retries_same_index:
  "MixedSources_init ''valid'' ''vocals.wav'' [''bass.wav''] (Some 2) 1 [''valid/3'', ''valid/2'']
     = Inr mixed_missing \<and>
   \<not> exists studio (joinpath ''valid/3'' ''bass.wav'') \<and>
   mixed_attempt studio mixed_missing (sconst 0) 0 = Retry (sconst 0) 0 \<and>
   neighbour 0 = 1 \<and>
   mixed_getitem 1000 studio mixed_missing (sconst 0) 0 = Inl RecursionError \<and>
   mixed_getitem 1000 studio mixed_missing (sconst 0) 1
     = Inr (([[11, 22]], [[10, 20]]), sconst 0)"
proof -
  have "MixedSources_init ''valid'' ''vocals.wav'' [''bass.wav''] (Some 2) 1
          [''valid/3'', ''valid/2'']
     = Inr mixed_missing"
    by (simp add: MixedSources_init_def mixed_missing_def)
  moreover have "\<not> exists studio (joinpath ''valid/3'' ''bass.wav'')"
    by (simp add: exists_def joinpath_def studio_def)
  moreover have "mixed_attempt studio mixed_missing (sconst 0) 0 = Retry (sconst 0) 0"
    by (rule attempt_mixed_missing)
  moreover have "neighbour 0 = 1"
    by (simp add: neighbour_def)
  moreover have "mixed_getitem 1000 studio mixed_missing (sconst 0) 0 = Inl RecursionError"
    by (rule getitem_mixed_missing)
  moreover have "mixed_getitem 1000 studio mixed_missing (sconst 0) 1
     = Inr (([[11, 22]], [[10, 20]]), sconst 0)"
    unfolding python_recursion_limit
    by (rule mixed_getitem_Done) (rule attempt_mixed_missing_neighbour)
  ultimately show ?thesis by blast
qed

end
